theory Spec2Isabelle
  imports Main "HOL-Library.Word" "HOL-Library.Sublist"
begin

unbundle bit_operations_syntax

section \<open>Protocol layer: \<open>background/protocol/protocol-impl.ts\<close>\<close>

subsection \<open>Data\<close>

type_synonym bytes = "8 word list"

text \<open>
  JavaScript exceptions as values. \<open>Error m\<close> is \<^verbatim>\<open>new Error(m)\<close> thrown by the code of
  this repository. The other constructors are the exceptions raised by the collaborators
  the code calls without catching: \<open>TypeError\<close> and \<open>SyntaxError\<close> of the platform
  (\<^verbatim>\<open>TextDecoder\<close>, \<^verbatim>\<open>JSON.parse\<close>, a property read from \<^verbatim>\<open>null\<close>) and of tweetnacl's
  argument check, \<open>NaclError m\<close>
  for an \<^verbatim>\<open>Error(m)\<close> raised inside tweetnacl (its size checks), and \<open>FromBase64Failure\<close>
  for whatever \<^verbatim>\<open>fromBase64\<close> of \<^verbatim>\<open>background/utils\<close> throws on a malformed string.
\<close>

datatype error =
    Error string
  | TypeError string
  | SyntaxError
  | NaclError string
  | FromBase64Failure

text \<open>
  The wire shapes of \<^verbatim>\<open>./types\<close>. A field that may be absent (\<^verbatim>\<open>undefined\<close>) is an
  \<open>option\<close>. \<open>KeeWebConnectRequest\<close> is any request handed to the transport;
  \<open>KeeWebConnectEncryptedRequest\<close> is the envelope built by \<open>makeEncryptedRequest\<close>, whose
  four fields are always present. \<open>KeeWebConnectResponse\<close> is a message of the peer, and
  also a decrypted payload.
\<close>

record KeeWebConnectRequest =
  req_action :: string
  req_message :: "string option"
  req_nonce :: "string option"
  req_clientID :: "string option"
  req_publicKey :: "string option"

record KeeWebConnectEncryptedRequest =
  enc_action :: string
  enc_message :: string
  enc_nonce :: string
  enc_clientID :: string

record KeeWebConnectResponse =
  res_action :: "string option"
  res_message :: "string option"
  res_nonce :: "string option"
  res_publicKey :: "string option"
  res_error :: "string option"
  res_errorCode :: "string option"
  res_hash :: "string option"

text \<open>
  What \<^verbatim>\<open>JSON.parse\<close> can return: \<^verbatim>\<open>null\<close>, an object, read through the fields of a
  response, or any other value (a number, a string, a boolean, an array), none of which
  has an \<^verbatim>\<open>error\<close> property.
\<close>

datatype json_value = JSON_null | JSON_object KeeWebConnectResponse | JSON_other

text \<open>The upcast of an encrypted request to the request type the transport takes.\<close>

definition asRequest :: "KeeWebConnectEncryptedRequest \<Rightarrow> KeeWebConnectRequest" where
  "asRequest r =
     \<lparr>req_action = enc_action r, req_message = Some (enc_message r),
      req_nonce = Some (enc_nonce r), req_clientID = Some (enc_clientID r),
      req_publicKey = None\<rparr>"

record BoxKeyPair =
  publicKey :: bytes
  secretKey :: bytes

text \<open>
  The fields of a \<open>ProtocolImpl\<close> object. \<open>keewebPublicKey\<close> is declared without an
  initialiser and is assigned only by \<open>changePublicKeys\<close>: until then it is \<open>None\<close>.
  The \<open>_transport\<close> adapter is the request function of the backend (see \<open>initTransport\<close>).
\<close>

record ProtocolImpl =
  clientId :: string
  ownKeys :: BoxKeyPair
  keewebPublicKey :: "bytes option"

text \<open>
  The collaborators of the protocol code that are not part of the source at hand, taken
  as parameters: the base64 codec of \<^verbatim>\<open>background/utils\<close> (\<open>fromBase64\<close> is \<open>None\<close> where
  it throws), the JSON codec of the platform (\<open>JSON_parse\<close> is \<open>None\<close> where it throws),
  the text encoder, the text decoder on whatever it is handed (\<open>None\<close> is \<^verbatim>\<open>null\<close>; the
  result is \<open>Inl m\<close> where \<^verbatim>\<open>decode\<close> throws a \<^verbatim>\<open>TypeError\<close> with the message \<open>m\<close>), the
  message of the \<^verbatim>\<open>TypeError\<close> that the engine raises when a property, given by its name,
  is read from \<^verbatim>\<open>null\<close>, the two ciphers of tweetnacl on byte arrays (\<open>Inl m\<close> where the
  library throws \<^verbatim>\<open>Error(m)\<close>; \<open>Inr None\<close> is the \<^verbatim>\<open>null\<close> that \<^verbatim>\<open>box.open\<close> returns when
  authentication fails), and the string table \<^verbatim>\<open>chrome.i18n.getMessage\<close>.
\<close>

record env =
  fromBase64 :: "string \<Rightarrow> bytes option"
  toBase64 :: "bytes \<Rightarrow> string"
  JSON_stringify :: "KeeWebConnectRequest \<Rightarrow> string"
  JSON_parse :: "string \<Rightarrow> json_value option"
  TextEncoder_encode :: "string \<Rightarrow> bytes"
  TextDecoder_decode :: "bytes option \<Rightarrow> string + string"
  propertyOfNull :: "string \<Rightarrow> string"
  nacl_box :: "bytes \<Rightarrow> bytes \<Rightarrow> bytes \<Rightarrow> bytes \<Rightarrow> string + bytes"
  nacl_box_open :: "bytes \<Rightarrow> bytes \<Rightarrow> bytes \<Rightarrow> bytes \<Rightarrow> string + bytes option"
  getMessage :: "string \<Rightarrow> string"

text \<open>JavaScript truthiness of an optional string: \<^verbatim>\<open>undefined\<close> and \<^verbatim>\<open>""\<close> are falsy.\<close>

definition is_falsy :: "string option \<Rightarrow> bool" where
  "is_falsy v = (case v of None \<Rightarrow> True | Some str \<Rightarrow> str = [])"

subsection \<open>The nonce increment of \<open>validateNonce\<close>\<close>

text \<open>
  The loop of \<open>ProtocolImpl.validateNonce\<close>:
  \<^verbatim>\<open>
  let i = 0; let c = 1;
  for (; i < nonceData.length; ++i) {
      c += nonceData[i];
      nonceData[i] = c;
      c >>= 8;
  }
  \<close>
  \<open>nonceData\<close> is a \<open>Uint8Array\<close>: the store \<open>nonceData[i] = c\<close> keeps the low eight
  bits of \<open>c\<close>. \<open>c\<close> is a JavaScript number that stays in \<open>0..256\<close>, modelled as an
  \<open>int\<close>; \<open>c >>= 8\<close> drops its low eight bits.
\<close>

function validateNonce_loop :: "nat \<Rightarrow> int \<Rightarrow> bytes \<Rightarrow> bytes" where
  "validateNonce_loop i c nonceData =
     (if i < length nonceData then
        (let c1 = c + uint (nonceData ! i);
             nonceData1 = nonceData[i := word_of_int c1]
         in validateNonce_loop (i + 1) (drop_bit 8 c1) nonceData1)
      else nonceData)"
  by pat_completeness auto
termination
  by (relation "measure (\<lambda>(i, c, nonceData). length nonceData - i)") auto

declare validateNonce_loop.simps [simp del]

definition incrementNonce :: "bytes \<Rightarrow> bytes" where
  "incrementNonce nonceData = validateNonce_loop 0 1 nonceData"

text \<open>
  The reading of a byte sequence as a little-endian counter, following the words of the
  specification: the first byte is the least significant.
\<close>

fun le_counter :: "bytes \<Rightarrow> nat" where
  "le_counter [] = 0"
| "le_counter (b # bs) = unat b + 256 * le_counter bs"

subsection \<open>The calls into tweetnacl\<close>

text \<open>
  \<^verbatim>\<open>tweetnaclBox(data, nonce, this._keewebPublicKey, this._ownKeys.secretKey)\<close> and
  \<^verbatim>\<open>tweetnaclBox.open(...)\<close>, called with a key field that may still be unset. tweetnacl
  checks the type of its arguments first and throws
  \<^verbatim>\<open>TypeError('unexpected type, use Uint8Array')\<close> for a value that is not a
  \<^verbatim>\<open>Uint8Array\<close>; on byte arrays the cipher of the environment decides.
\<close>

definition tweetnaclBox ::
  "env \<Rightarrow> bytes \<Rightarrow> bytes \<Rightarrow> bytes option \<Rightarrow> bytes \<Rightarrow> error + bytes" where
  "tweetnaclBox e msg nonce pk sk =
     (case pk of
        None \<Rightarrow> Inl (TypeError ''unexpected type, use Uint8Array'')
      | Some k \<Rightarrow>
          (case nacl_box e msg nonce k sk of
             Inl m \<Rightarrow> Inl (NaclError m)
           | Inr boxed \<Rightarrow> Inr boxed))"

definition tweetnaclBox_open ::
  "env \<Rightarrow> bytes \<Rightarrow> bytes \<Rightarrow> bytes option \<Rightarrow> bytes \<Rightarrow> error + bytes option" where
  "tweetnaclBox_open e box nonce pk sk =
     (case pk of
        None \<Rightarrow> Inl (TypeError ''unexpected type, use Uint8Array'')
      | Some k \<Rightarrow>
          (case nacl_box_open e box nonce k sk of
             Inl m \<Rightarrow> Inl (NaclError m)
           | Inr opened \<Rightarrow> Inr opened))"

subsection \<open>The operations of \<open>ProtocolImpl\<close>\<close>

text \<open>
  \<open>makeEncryptedRequest\<close>; the fresh nonce of \<open>generateNonce\<close> (24 random bytes) is an
  argument.
\<close>

definition keySize :: nat where
  "keySize = 24"

definition makeEncryptedRequest ::
  "env \<Rightarrow> ProtocolImpl \<Rightarrow> KeeWebConnectRequest \<Rightarrow> bytes
     \<Rightarrow> error + KeeWebConnectEncryptedRequest" where
  "makeEncryptedRequest e p payload nonce =
     (let json = JSON_stringify e payload;
          data = TextEncoder_encode e json
      in case tweetnaclBox e data nonce (keewebPublicKey p) (secretKey (ownKeys p)) of
           Inl err \<Rightarrow> Inl err
         | Inr encrypted \<Rightarrow>
             Inr \<lparr>enc_action = req_action payload,
                  enc_message = toBase64 e encrypted,
                  enc_nonce = toBase64 e nonce,
                  enc_clientID = clientId p\<rparr>)"

definition fieldFromBase64 :: "env \<Rightarrow> string option \<Rightarrow> string \<Rightarrow> error + bytes" where
  "fieldFromBase64 e base64 fieldName =
     (case base64 of
        None \<Rightarrow> Inl (Error (''Empty value '' @ fieldName @ '': expected base64''))
      | Some str \<Rightarrow>
          if str = [] then Inl (Error (''Empty value '' @ fieldName @ '': expected base64''))
          else (case fromBase64 e str of
                  None \<Rightarrow> Inl (Error (''Bad value '' @ fieldName @ '': failed to decode base64''))
                | Some decoded \<Rightarrow> Inr decoded))"

text \<open>
  \<open>validateNonce\<close>: \<open>nonce\<close> is the nonce of the request, \<open>incrementedNonce\<close> the nonce
  field of the response, which may be absent. The comparison \<^verbatim>\<open>expected !== incrementedNonce\<close>
  is between the base64 strings.
\<close>

definition validateNonce :: "env \<Rightarrow> string \<Rightarrow> string option \<Rightarrow> error + unit" where
  "validateNonce e nonce incrementedNonce =
     (case fromBase64 e nonce of
        None \<Rightarrow> Inl FromBase64Failure
      | Some nonceData \<Rightarrow>
          (let expected = toBase64 e (incrementNonce nonceData)
           in if Some expected \<noteq> incrementedNonce
              then Inl (Error ''Bad nonce in response'')
              else Inr ()))"

definition checkResponseError :: "env \<Rightarrow> KeeWebConnectResponse \<Rightarrow> error + KeeWebConnectResponse" where
  "checkResponseError e response =
     (case res_error response of
        None \<Rightarrow> Inr response
      | Some err \<Rightarrow>
          if err = [] then Inr response
          else
            (let locErr = getMessage e ''errorAppReturnedError'';
                 errCodeStr =
                   (case res_errorCode response of
                      None \<Rightarrow> []
                    | Some code \<Rightarrow> if code = [] then [] else ''[code='' @ code @ ''] '');
                 resErr = errCodeStr @ err
             in Inl (Error (locErr @ '': '' @ resErr))))"

text \<open>
  \<open>decryptResponsePayload\<close>. The result \<open>Inr None\<close> is the \<^verbatim>\<open>undefined\<close> returned for a
  response without a message. The result of \<^verbatim>\<open>box.open\<close> goes to the decoder as it is,
  \<^verbatim>\<open>null\<close> included. \<open>checkResponseError\<close> reads \<^verbatim>\<open>payload.error\<close>: on \<^verbatim>\<open>null\<close> the
  read throws, and on a value that is no object it finds nothing and the value is
  returned.
\<close>

definition decryptResponsePayload ::
  "env \<Rightarrow> ProtocolImpl \<Rightarrow> KeeWebConnectEncryptedRequest \<Rightarrow> KeeWebConnectResponse
     \<Rightarrow> error + json_value option" where
  "decryptResponsePayload e p request response =
     (if is_falsy (res_message response) then Inr None
      else
        (case validateNonce e (enc_nonce request) (res_nonce response) of
           Inl err \<Rightarrow> Inl err
         | Inr u \<Rightarrow>
        (case fieldFromBase64 e (res_message response) ''message'' of
           Inl err \<Rightarrow> Inl err
         | Inr message \<Rightarrow>
        (case fieldFromBase64 e (res_nonce response) ''nonce'' of
           Inl err \<Rightarrow> Inl err
         | Inr nonce \<Rightarrow>
        (case tweetnaclBox_open e message nonce (keewebPublicKey p) (secretKey (ownKeys p)) of
           Inl err \<Rightarrow> Inl err
         | Inr data \<Rightarrow>
        (case TextDecoder_decode e data of
           Inl m \<Rightarrow> Inl (TypeError m)
         | Inr json \<Rightarrow>
        (case JSON_parse e json of
           None \<Rightarrow> Inl SyntaxError
         | Some JSON_null \<Rightarrow> Inl (TypeError (propertyOfNull e ''error''))
         | Some JSON_other \<Rightarrow> Inr (Some JSON_other)
         | Some (JSON_object payload) \<Rightarrow>
        (case checkResponseError e payload of
           Inl err \<Rightarrow> Inl err
         | Inr checked \<Rightarrow> Inr (Some (JSON_object checked))))))))))"

text \<open>
  \<open>changePublicKeys\<close>, in its two halves: the request it sends (with the throwaway nonce
  as an argument), and what it does with the response: \<open>request\<close> passes it through
  \<open>checkResponseError\<close>, and the public key of the peer is decoded and stored. The
  declared type of the response has a \<open>publicKey\<close>; a response without one has nothing
  that decodes.
\<close>

definition changePublicKeys_request :: "env \<Rightarrow> ProtocolImpl \<Rightarrow> bytes \<Rightarrow> KeeWebConnectRequest" where
  "changePublicKeys_request e p nonce =
     \<lparr>req_action = ''change-public-keys'',
      req_message = None,
      req_nonce = Some (toBase64 e nonce),
      req_clientID = Some (clientId p),
      req_publicKey = Some (toBase64 e (publicKey (ownKeys p)))\<rparr>"

definition changePublicKeys_response ::
  "env \<Rightarrow> ProtocolImpl \<Rightarrow> KeeWebConnectResponse \<Rightarrow> error + ProtocolImpl" where
  "changePublicKeys_response e p response =
     (case checkResponseError e response of
        Inl err \<Rightarrow> Inl err
      | Inr checked \<Rightarrow>
          (case res_publicKey checked of
             None \<Rightarrow> Inl FromBase64Failure
           | Some str \<Rightarrow>
               (case fromBase64 e str of
                  None \<Rightarrow> Inl FromBase64Failure
                | Some key \<Rightarrow> Inr (p\<lparr>keewebPublicKey := Some key\<rparr>))))"

section \<open>Connection layer: \<open>background/backend.ts\<close>\<close>

subsection \<open>Data\<close>

text \<open>
  \<open>BackendConnectionState\<close> of \<^verbatim>\<open>common/backend-connection-state\<close>; its member \<^verbatim>\<open>Error\<close> is
  written \<open>StateError\<close> here.
\<close>

datatype BackendConnectionState =
  Initializing | ReadyToConnect | Connecting | Connected | StateError

text \<open>
  A \<open>RequestQueueItem\<close>. Its \<open>timeout\<close> is the handle that \<^verbatim>\<open>window.setTimeout\<close> returned
  when the item was created; the promise created in the same call of \<open>request\<close> (the
  item's \<^verbatim>\<open>resolve\<close> and \<^verbatim>\<open>reject\<close>) is identified by the same number.
\<close>

record RequestQueueItem =
  request :: KeeWebConnectRequest
  timeout :: nat

datatype settlement = Resolved KeeWebConnectResponse | Rejected error

datatype connect_settlement = ConnectResolved | ConnectRejected error

datatype BackendEvents = StateChanged | ConnectFinished "error option"

datatype TransportBase = TransportNativeMessaging | TransportBrowserTab string

datatype transport_call =
  T_connect | T_disconnect | T_removeAllListeners | T_focusKeeWeb | T_request KeeWebConnectRequest

text \<open>
  The fields of the \<open>Backend\<close> object, followed by its surroundings: the timers pending in
  the window and the next handle, how the promises of the requests and of the \<open>connect\<close>
  calls have been settled (the first settlement of a promise stands, so an entry is only
  ever added for a promise that has none), the events emitted so far, the
  \<^verbatim>\<open>once('connect-finished')\<close> listeners by the number of the \<open>connect\<close> call that
  registered them, the calls made on the transport object, and the requests submitted to
  \<open>request\<close> so far. Console output is not modelled.
\<close>

record Backend =
  useNativeApp :: bool
  keeWebUrl :: "string option"
  state :: BackendConnectionState
  connectionError :: "string option"
  transport :: "TransportBase option"
  requestQueue :: "RequestQueueItem list"
  currentRequest :: "RequestQueueItem option"
  protocol :: "ProtocolImpl option"
  timers :: "nat list"
  nextTimer :: nat
  settled :: "(nat \<times> settlement) list"
  emitted :: "BackendEvents list"
  connectWaiters :: "nat list"
  connectSettled :: "(nat \<times> connect_settlement) list"
  transportLog :: "transport_call list"
  submitted :: "KeeWebConnectRequest list"

definition defaultKeeWebUrl :: string where
  "defaultKeeWebUrl = ''https://app.keeweb.info/''"

definition new_Backend :: Backend where
  "new_Backend =
     \<lparr>useNativeApp = True, keeWebUrl = Some defaultKeeWebUrl, state = Initializing,
      connectionError = None, transport = None, requestQueue = [], currentRequest = None,
      protocol = None, timers = [], nextTimer = 0, settled = [], emitted = [],
      connectWaiters = [], connectSettled = [], transportLog = [], submitted = []\<rparr>"

subsection \<open>Promises, timers, events\<close>

definition settle :: "nat \<Rightarrow> settlement \<Rightarrow> Backend \<Rightarrow> Backend" where
  "settle k v b =
     (if map_of (settled b) k = None then b\<lparr>settled := settled b @ [(k, v)]\<rparr> else b)"

definition settleConnect :: "nat \<Rightarrow> connect_settlement \<Rightarrow> Backend \<Rightarrow> Backend" where
  "settleConnect k v b =
     (if map_of (connectSettled b) k = None
      then b\<lparr>connectSettled := connectSettled b @ [(k, v)]\<rparr> else b)"

definition clearTimeout :: "nat \<Rightarrow> Backend \<Rightarrow> Backend" where
  "clearTimeout t b = b\<lparr>timers := removeAll t (timers b)\<rparr>"

text \<open>
  \<open>emit\<close>. The listeners of \<open>state-changed\<close> live outside this class. The listeners of
  \<open>connect-finished\<close> are the ones \<open>connect\<close> registers with \<^verbatim>\<open>once\<close>: each runs
  \<^verbatim>\<open>e ? reject(e) : resolve()\<close> and is removed.
\<close>

definition emit :: "BackendEvents \<Rightarrow> Backend \<Rightarrow> Backend" where
  "emit ev b =
     (case ev of
        StateChanged \<Rightarrow> b\<lparr>emitted := emitted b @ [ev]\<rparr>
      | ConnectFinished err \<Rightarrow>
          (fold (\<lambda>k. settleConnect k
                   (case err of None \<Rightarrow> ConnectResolved | Some x \<Rightarrow> ConnectRejected x))
             (connectWaiters b) (b\<lparr>emitted := emitted b @ [ev]\<rparr>))
          \<lparr>connectWaiters := []\<rparr>)"

subsection \<open>The methods of \<open>Backend\<close>\<close>

text \<open>
  The methods that change the state of the connection or the queue. The domain calls
  \<open>getLogins\<close>, \<open>getTotp\<close>, \<open>getAnyField\<close> and \<open>checkConnection\<close> go through the protocol
  object and reach the queue only by way of \<open>request\<close>.
\<close>

definition setState :: "BackendConnectionState \<Rightarrow> Backend \<Rightarrow> Backend" where
  "setState st b =
     (if state b \<noteq> st then emit StateChanged (b\<lparr>state := st\<rparr>) else b)"

definition sendTransportRequest :: "KeeWebConnectRequest \<Rightarrow> Backend \<Rightarrow> Backend" where
  "sendTransportRequest r b =
     (case transport b of
        None \<Rightarrow> b
      | Some tr \<Rightarrow> b\<lparr>transportLog := transportLog b @ [T_request r]\<rparr>)"

definition processRequestQueue :: "Backend \<Rightarrow> Backend" where
  "processRequestQueue b =
     (case requestQueue b of
        [] \<Rightarrow> b
      | item # rest \<Rightarrow>
          if currentRequest b \<noteq> None then b
          else if state b = Connecting \<and> req_action (request item) \<noteq> ''change-public-keys''
          then b
          else if state b \<noteq> Connecting \<and> state b \<noteq> Connected then b
          else sendTransportRequest (request item)
                 (b\<lparr>currentRequest := Some item, requestQueue := rest\<rparr>))"

text \<open>
  \<open>request\<close> (here \<open>Backend_request\<close>): the timer is started, the item is pushed and the
  queue is processed. \<open>timeoutFired\<close> is the callback of that timer.
\<close>

definition Backend_request :: "KeeWebConnectRequest \<Rightarrow> Backend \<Rightarrow> Backend" where
  "Backend_request r b =
     (let t = nextTimer b
      in processRequestQueue
           (b\<lparr>nextTimer := t + 1, timers := timers b @ [t],
              requestQueue := requestQueue b @ [\<lparr>request = r, timeout = t\<rparr>],
              submitted := submitted b @ [r]\<rparr>))"

definition timeoutFired :: "env \<Rightarrow> nat \<Rightarrow> Backend \<Rightarrow> Backend" where
  "timeoutFired e t b =
     settle t (Rejected (Error (getMessage e ''errorRequestTimeout'')))
       (b\<lparr>currentRequest := None, timers := removeAll t (timers b)\<rparr>)"

definition focusKeeWebTab :: "Backend \<Rightarrow> Backend" where
  "focusKeeWebTab b =
     (case transport b of
        None \<Rightarrow> b
      | Some tr \<Rightarrow> b\<lparr>transportLog := transportLog b @ [T_focusKeeWeb]\<rparr>)"

definition transportMessage :: "KeeWebConnectResponse \<Rightarrow> Backend \<Rightarrow> Backend" where
  "transportMessage msg b =
     (if res_action msg = Some ''database-locked'' then b
      else if res_action msg = Some ''database-unlocked'' then b
      else if res_action msg = Some ''attention-required'' then focusKeeWebTab b
      else processRequestQueue
             (case currentRequest b of
                None \<Rightarrow> b
              | Some cur \<Rightarrow>
                  (settle (timeout cur) (Resolved msg) (clearTimeout (timeout cur) b))
                  \<lparr>currentRequest := None\<rparr>))"

definition rejectPendingRequests :: "string \<Rightarrow> Backend \<Rightarrow> Backend" where
  "rejectPendingRequests msg b =
     (let err = Error msg;
          b1 = (case currentRequest b of
                  None \<Rightarrow> b
                | Some cur \<Rightarrow>
                    (settle (timeout cur) (Rejected err) (clearTimeout (timeout cur) b))
                    \<lparr>currentRequest := None\<rparr>);
          b2 = fold (\<lambda>req. settle (timeout req) (Rejected err)) (requestQueue b1) b1
      in b2\<lparr>requestQueue := []\<rparr>)"

definition resetStateByConfig :: "Backend \<Rightarrow> Backend" where
  "resetStateByConfig b = setState ReadyToConnect (b\<lparr>connectionError := None\<rparr>)"

text \<open>
  \<open>init\<close>, at the callback of \<^verbatim>\<open>chrome.storage.local.get\<close>: the two stored values, each
  possibly absent.
\<close>

definition init :: "bool option \<Rightarrow> string option \<Rightarrow> Backend \<Rightarrow> Backend" where
  "init storedUseNativeApp storedKeeWebUrl b =
     resetStateByConfig
       (b\<lparr>useNativeApp := (case storedUseNativeApp of None \<Rightarrow> True | Some v \<Rightarrow> v),
          keeWebUrl := storedKeeWebUrl\<rparr>)"

text \<open>
  \<open>initTransport\<close>. The \<open>ProtocolImpl\<close> it creates draws a client id and a key pair at
  random; the new object is an argument. The two listeners it registers are the functions
  \<open>transportDisconnected\<close> and \<open>transportMessage\<close>.
\<close>

definition initTransport :: "ProtocolImpl \<Rightarrow> Backend \<Rightarrow> Backend" where
  "initTransport fresh b =
     b\<lparr>transport :=
          Some (if useNativeApp b then TransportNativeMessaging
                else TransportBrowserTab
                       (if is_falsy (keeWebUrl b) then defaultKeeWebUrl
                        else (case keeWebUrl b of Some url \<Rightarrow> url | None \<Rightarrow> defaultKeeWebUrl))),
        protocol := Some (fresh\<lparr>keewebPublicKey := None\<rparr>)\<rparr>"

definition transportDisconnected :: "env \<Rightarrow> Backend \<Rightarrow> Backend" where
  "transportDisconnected e b =
     (let msg =
            (if state b = Connecting
             then getMessage e (if useNativeApp b then ''errorConnectionErrorApp''
                                else ''errorConnectionErrorWeb'')
             else getMessage e ''errorKeeWebDisconnected'')
      in rejectPendingRequests msg (setState StateError (b\<lparr>connectionError := Some msg\<rparr>)))"

text \<open>
  \<open>connect\<close>, cut at its two \<^verbatim>\<open>await\<close>s. \<open>k\<close> numbers the call, and so the promise it
  returns. \<open>connect\<close> is the call itself, up to \<^verbatim>\<open>await this._transport.connect()\<close>;
  \<open>connect_transportConnected\<close> resumes it when the transport has connected and runs
  \<open>changePublicKeys\<close> up to the point where its request is handed to \<open>request\<close>;
  \<open>connect_handshakeResolved\<close> resumes it with the response to that request;
  \<open>connect_failed\<close> is the \<^verbatim>\<open>catch\<close> block, which does not throw again, so that the
  promise of the call that ran the attempt is resolved on either path.
\<close>

fun error_message :: "error \<Rightarrow> string" where
  "error_message (Error m) = m"
| "error_message (TypeError m) = m"
| "error_message SyntaxError = ''Unexpected token in JSON''"
| "error_message (NaclError m) = m"
| "error_message FromBase64Failure = ''Failed to decode base64''"

definition connect_failed :: "nat \<Rightarrow> error \<Rightarrow> Backend \<Rightarrow> Backend" where
  "connect_failed k err b =
     settleConnect k ConnectResolved
       (emit (ConnectFinished (Some err))
          (setState StateError (b\<lparr>connectionError := Some (error_message err)\<rparr>)))"

definition connect :: "nat \<Rightarrow> ProtocolImpl \<Rightarrow> Backend \<Rightarrow> Backend" where
  "connect k fresh b =
     (if state b = Connected then settleConnect k ConnectResolved b
      else if state b = Connecting then b\<lparr>connectWaiters := connectWaiters b @ [k]\<rparr>
      else
        (let b1 = rejectPendingRequests ''Reconnecting'' b;
             b2 = setState Connecting (b1\<lparr>connectionError := None\<rparr>);
             b3 = initTransport fresh b2
         in if transport b3 = None
            then connect_failed k (Error ''Transport not initialized'') b3
            else if protocol b3 = None
            then connect_failed k (Error ''Protocol not initialized'') b3
            else b3\<lparr>transportLog := transportLog b3 @ [T_connect]\<rparr>))"

definition connect_transportConnected :: "env \<Rightarrow> nat \<Rightarrow> bytes \<Rightarrow> Backend \<Rightarrow> Backend" where
  "connect_transportConnected e k nonce b =
     (case protocol b of
        None \<Rightarrow> connect_failed k (TypeError ''Cannot read properties of undefined'') b
      | Some p \<Rightarrow> Backend_request (changePublicKeys_request e p nonce) b)"

definition connect_handshakeResolved ::
  "env \<Rightarrow> nat \<Rightarrow> KeeWebConnectResponse \<Rightarrow> Backend \<Rightarrow> Backend" where
  "connect_handshakeResolved e k response b =
     (case protocol b of
        None \<Rightarrow> connect_failed k (TypeError ''Cannot read properties of undefined'') b
      | Some p \<Rightarrow>
          (case changePublicKeys_response e p response of
             Inl err \<Rightarrow> connect_failed k err b
           | Inr p1 \<Rightarrow>
               settleConnect k ConnectResolved
                 (emit (ConnectFinished None)
                    (setState Connected (b\<lparr>protocol := Some p1\<rparr>)))))"

text \<open>
  \<open>storageChanged\<close>, cut at \<^verbatim>\<open>await this._transport.disconnect()\<close>. A change carries the
  new value of \<open>useNativeApp\<close>, of \<open>keeWebUrl\<close>, both or neither.
\<close>

record changes =
  ch_useNativeApp :: "bool option"
  ch_keeWebUrl :: "string option option"

definition storageChanged_resume :: "Backend \<Rightarrow> Backend" where
  "storageChanged_resume b =
     rejectPendingRequests ''Config changed'' (resetStateByConfig (b\<lparr>transport := None\<rparr>))"

definition storageChanged :: "changes \<Rightarrow> Backend \<Rightarrow> Backend" where
  "storageChanged ch b =
     (case (ch_useNativeApp ch, ch_keeWebUrl ch) of
        (None, None) \<Rightarrow> b
      | (u, w) \<Rightarrow>
          (let b1 = (case u of
                       Some v \<Rightarrow> b\<lparr>useNativeApp := v\<rparr>
                     | None \<Rightarrow> (case w of Some url \<Rightarrow> b\<lparr>keeWebUrl := url\<rparr> | None \<Rightarrow> b))
           in case transport b1 of
                Some tr \<Rightarrow>
                  b1\<lparr>transportLog := transportLog b1 @ [T_removeAllListeners, T_disconnect]\<rparr>
              | None \<Rightarrow> rejectPendingRequests ''Config changed'' (resetStateByConfig b1)))"

text \<open>
  \<open>getDatabaseHash\<close> of the protocol, wired to the backend as \<open>initTransport\<close> wires it
  (\<^verbatim>\<open>new ProtocolImpl({ request: (r) => this.request(r) })\<close>), up to its \<^verbatim>\<open>await\<close>: the
  envelope is built first, and only then handed to \<open>request\<close>. An exception of
  \<open>makeEncryptedRequest\<close> leaves the function before that call.
\<close>

definition getDatabaseHash ::
  "env \<Rightarrow> ProtocolImpl \<Rightarrow> bytes \<Rightarrow> Backend
     \<Rightarrow> (error + KeeWebConnectEncryptedRequest) \<times> Backend" where
  "getDatabaseHash e p nonce b =
     (case makeEncryptedRequest e p
             \<lparr>req_action = ''get-databasehash'', req_message = None, req_nonce = None,
              req_clientID = None, req_publicKey = None\<rparr> nonce of
        Inl err \<Rightarrow> (Inl err, b)
      | Inr req \<Rightarrow> (Inr req, Backend_request (asRequest req) b))"

subsection \<open>The machine\<close>

text \<open>
  The entry points through which the backend is driven, one per synchronous stretch of
  code: the public calls, the events of the transport, the timers, and the resumptions
  of the suspended calls. A timer fires only while it is pending. Nothing else restricts
  the order of the events, so the reachable states include every interleaving the
  scheduler can produce.
\<close>

datatype event =
    Ev_init "bool option" "string option"
  | Ev_storageChanged changes
  | Ev_storageChanged_resume
  | Ev_connect nat ProtocolImpl
  | Ev_transportConnected nat bytes
  | Ev_handshakeResolved nat KeeWebConnectResponse
  | Ev_connectRejected nat error
  | Ev_disconnected
  | Ev_message KeeWebConnectResponse
  | Ev_request KeeWebConnectRequest
  | Ev_timeout nat

fun step :: "env \<Rightarrow> event \<Rightarrow> Backend \<Rightarrow> Backend" where
  "step e (Ev_init u w) b = init u w b"
| "step e (Ev_storageChanged ch) b = storageChanged ch b"
| "step e Ev_storageChanged_resume b = storageChanged_resume b"
| "step e (Ev_connect k fresh) b = connect k fresh b"
| "step e (Ev_transportConnected k nonce) b = connect_transportConnected e k nonce b"
| "step e (Ev_handshakeResolved k response) b = connect_handshakeResolved e k response b"
| "step e (Ev_connectRejected k err) b = connect_failed k err b"
| "step e Ev_disconnected b = transportDisconnected e b"
| "step e (Ev_message msg) b = transportMessage msg b"
| "step e (Ev_request r) b = Backend_request r b"
| "step e (Ev_timeout t) b = (if t \<in> set (timers b) then timeoutFired e t b else b)"

inductive reachable :: "env \<Rightarrow> Backend \<Rightarrow> bool" for e :: env where
  reachable_new: "reachable e new_Backend"
| reachable_step: "reachable e b \<Longrightarrow> reachable e (step e ev b)"

text \<open>The run of a list of events, first event first.\<close>

definition run :: "env \<Rightarrow> event list \<Rightarrow> Backend \<Rightarrow> Backend" where
  "run e evs b = fold (step e) evs b"

text \<open>The requests handed to the transport so far, in the order of the calls.\<close>

fun sent_requests :: "transport_call list \<Rightarrow> KeeWebConnectRequest list" where
  "sent_requests [] = []"
| "sent_requests (T_request r # cs) = r # sent_requests cs"
| "sent_requests (c # cs) = sent_requests cs"

section \<open>Auxiliary definitions\<close>

text \<open>
  The increment as a structural recursion over the bytes, with the carry as an argument;
  the loop of \<open>validateNonce\<close> is shown to compute it.
\<close>

fun add_carry :: "int \<Rightarrow> bytes \<Rightarrow> bytes" where
  "add_carry c [] = []"
| "add_carry c (b # bs) = word_of_int (c + uint b) # add_carry (drop_bit 8 (c + uint b)) bs"

text \<open>
  A small environment and sample values, on which the theorems below are instantiated:
  a codec over a three-letter alphabet that rejects \<open>!\<close>, a cipher that reverses its
  input and authenticates exactly one ciphertext, a decoder that rejects \<^verbatim>\<open>null\<close>, and a
  parser that accepts \<open>{}\<close>.
\<close>

definition demo_env :: env where
  "demo_env =
     \<lparr>fromBase64 = (\<lambda>str. if CHR ''!'' \<in> set str then None
                          else Some (map (\<lambda>c. if c = CHR ''A'' then 0 else if c = CHR ''B'' then 1 else 255) str)),
      toBase64 = map (\<lambda>w. if w = 0 then CHR ''A'' else if w = 1 then CHR ''B'' else CHR ''/''),
      JSON_stringify = req_action,
      JSON_parse = (\<lambda>str. if str = ''{}'' then
           Some (JSON_object
                  \<lparr>res_action = None, res_message = None, res_nonce = None,
                   res_publicKey = None, res_error = None, res_errorCode = None,
                   res_hash = None\<rparr>)
           else None),
      TextEncoder_encode = map (\<lambda>c. if c = CHR ''{'' then 0 else 1),
      TextDecoder_decode = (\<lambda>data. case data of
           None \<Rightarrow> Inl ''not a buffer source''
         | Some bs \<Rightarrow> Inr (map (\<lambda>w. if w = 0 then CHR ''{'' else CHR ''}'') bs)),
      propertyOfNull = (\<lambda>name. ''null has no '' @ name),
      nacl_box = (\<lambda>msg nonce pk sk. Inr (rev msg)),
      nacl_box_open = (\<lambda>box nonce pk sk. if box = [1, 0] then Inr (Some (rev box)) else Inr None),
      getMessage = (\<lambda>key. key)\<rparr>"

definition demo_protocol :: ProtocolImpl where
  "demo_protocol = \<lparr>clientId = ''AB'', ownKeys = \<lparr>publicKey = [1], secretKey = [0]\<rparr>,
     keewebPublicKey = Some [1, 1]\<rparr>"

definition demo_request :: KeeWebConnectEncryptedRequest where
  "demo_request = \<lparr>enc_action = ''get-databasehash'', enc_message = ''BA'', enc_nonce = ''/A'',
     enc_clientID = ''AB''\<rparr>"

definition demo_response :: KeeWebConnectResponse where
  "demo_response = \<lparr>res_action = None, res_message = Some ''BA'', res_nonce = Some ''AB'',
     res_publicKey = None, res_error = None, res_errorCode = None, res_hash = None\<rparr>"

text \<open>
  The condition under which the queue is drained, in the words of the specification: no
  request is in flight, there is a head, and the state is \<open>Connected\<close>, or it is
  \<open>Connecting\<close> and the head is the handshake request.
\<close>

definition dispatch_condition :: "Backend \<Rightarrow> bool" where
  "dispatch_condition b \<longleftrightarrow>
     currentRequest b = None \<and>
     (case requestQueue b of
        [] \<Rightarrow> False
      | item # rest \<Rightarrow>
          state b = Connected \<or>
          (state b = Connecting \<and> req_action (request item) = ''change-public-keys''))"

text \<open>
  The order kept by the queue: the requests submitted so far are the requests still
  queued, preceded by those that have left the queue; the requests handed to the
  transport are among the latter, in the same order; and the request in flight, if any,
  is the last one that left the queue.
\<close>

definition queue_inv :: "Backend \<Rightarrow> bool" where
  "queue_inv b \<longleftrightarrow>
     (\<exists>pre. submitted b = pre @ map request (requestQueue b) \<and>
            subseq (sent_requests (transportLog b)) pre \<and>
            (\<forall>item. currentRequest b = Some item \<longrightarrow> pre \<noteq> [] \<and> last pre = request item))"

text \<open>
  \<open>connect\<close> called by one caller after the other, and a whole connection attempt up to
  the point where the response to its handshake is awaited: the call that starts it,
  further calls of \<open>connect\<close>, the transport connecting, and further calls again.
\<close>

definition connect_calls :: "(nat \<times> ProtocolImpl) list \<Rightarrow> Backend \<Rightarrow> Backend" where
  "connect_calls calls b = fold (\<lambda>(k, fresh). connect k fresh) calls b"

definition connect_attempt ::
  "env \<Rightarrow> nat \<Rightarrow> ProtocolImpl \<Rightarrow> bytes \<Rightarrow> (nat \<times> ProtocolImpl) list
     \<Rightarrow> (nat \<times> ProtocolImpl) list \<Rightarrow> Backend \<Rightarrow> Backend" where
  "connect_attempt e k fresh nonce calls1 calls2 b =
     connect_calls calls2
       (connect_transportConnected e k nonce
          (connect_calls calls1 (connect k fresh b)))"

text \<open>
  Sample runs of the machine: a backend that has loaded its configuration, one that is
  connecting, one that has connected, and three continuations of the latter with two
  requests.
\<close>

definition demo_handshake_response :: KeeWebConnectResponse where
  "demo_handshake_response =
     \<lparr>res_action = None, res_message = None, res_nonce = None, res_publicKey = Some ''BB'',
      res_error = None, res_errorCode = None, res_hash = None\<rparr>"

definition demo_payload :: "string \<Rightarrow> KeeWebConnectRequest" where
  "demo_payload a =
     \<lparr>req_action = a, req_message = None, req_nonce = None, req_clientID = None,
      req_publicKey = None\<rparr>"

definition demo_connected :: Backend where
  "demo_connected =
     run demo_env
       [Ev_init None None, Ev_connect 0 demo_protocol, Ev_transportConnected 0 [0, 1],
        Ev_message demo_handshake_response, Ev_handshakeResolved 0 demo_handshake_response]
       new_Backend"

definition demo_ready :: Backend where
  "demo_ready = run demo_env [Ev_init None None] new_Backend"

definition demo_connecting :: Backend where
  "demo_connecting =
     run demo_env
       [Ev_init None None, Ev_connect 0 demo_protocol, Ev_transportConnected 0 [0, 1]]
       new_Backend"

definition demo_in_flight :: Backend where
  "demo_in_flight =
     run demo_env
       [Ev_request (demo_payload ''get-logins''), Ev_request (demo_payload ''get-totp'')]
       demo_connected"

definition demo_queued :: Backend where
  "demo_queued =
     run demo_env
       [Ev_request (demo_payload ''get-logins''), Ev_request (demo_payload ''get-totp''),
        Ev_timeout 1]
       demo_connected"

definition demo_late :: Backend where
  "demo_late =
     run demo_env
       [Ev_request (demo_payload ''get-logins''), Ev_timeout 1,
        Ev_request (demo_payload ''get-totp'')]
       demo_connected"

text \<open>
  A run with a timer that outlives its request: of the two requests of \<open>demo_in_flight\<close>
  the queued one is rejected when the transport disconnects, and its timer stays pending.
  The backend reconnects and a third request is dispatched; then the old timer fires and
  a fourth request is submitted.
\<close>

definition demo_reconnected :: Backend where
  "demo_reconnected =
     run demo_env
       [Ev_disconnected, Ev_connect 1 demo_protocol, Ev_transportConnected 1 [0, 1],
        Ev_message demo_handshake_response, Ev_handshakeResolved 1 demo_handshake_response,
        Ev_request (demo_payload ''get-any-field'')]
       demo_in_flight"

definition demo_stale :: Backend where
  "demo_stale =
     run demo_env [Ev_timeout 2, Ev_request (demo_payload ''get-databasehash'')]
       demo_reconnected"

section \<open>The nonce successor\<close>

lemma length_add_carry: "length (add_carry c bs) = length bs"
  by (induction bs arbitrary: c) simp_all

lemma validateNonce_loop_add_carry:
  "i \<le> length nonceData \<Longrightarrow>
   validateNonce_loop i c nonceData = take i nonceData @ add_carry c (drop i nonceData)"
proof (induction i c nonceData rule: validateNonce_loop.induct)
  case (1 i c nonceData)
  show ?case
  proof (cases "i < length nonceData")
    case False
    with "1.prems" show ?thesis
      by (subst validateNonce_loop.simps) simp
  next
    case True
    let ?c1 = "c + uint (nonceData ! i)"
    let ?nd = "nonceData[i := word_of_int ?c1]"
    have ih: "validateNonce_loop (i + 1) (drop_bit 8 ?c1) ?nd =
        take (i + 1) ?nd @ add_carry (drop_bit 8 ?c1) (drop (i + 1) ?nd)"
      using "1.IH" [OF True refl refl] True by simp
    have d: "drop i nonceData = nonceData ! i # drop (Suc i) nonceData"
      using True by (simp add: Cons_nth_drop_Suc)
    have t: "take (i + 1) ?nd = take i nonceData @ [word_of_int ?c1]"
      using True by (simp add: take_Suc_conv_app_nth)
    have dd: "drop (i + 1) ?nd = drop (Suc i) nonceData"
      by simp
    show ?thesis
      using True ih d t dd
      by (simp add: validateNonce_loop.simps [of i c nonceData] Let_def)
  qed
qed

lemma incrementNonce_add_carry: "incrementNonce N = add_carry 1 N"
  by (simp add: incrementNonce_def validateNonce_loop_add_carry)

lemma mod_256_step:
  fixes t L m :: int
  assumes "0 \<le> m"
  shows "(t + 256 * L) mod (256 * m) = t mod 256 + 256 * ((L + t div 256) mod m)"
proof -
  have "(t + 256 * L) mod (256 * m) =
      256 * ((t + 256 * L) div 256 mod m) + (t + 256 * L) mod 256"
    using assms by (rule zmod_zmult2_eq)
  moreover have "(t + 256 * L) div 256 = L + t div 256"
    by simp
  moreover have "(t + 256 * L) mod 256 = t mod 256"
    by simp
  ultimately show ?thesis
    by (simp only: add.commute)
qed

lemma le_counter_add_carry:
  "0 \<le> c \<Longrightarrow>
   int (le_counter (add_carry c bs)) = (int (le_counter bs) + c) mod 256 ^ length bs"
proof (induction bs arbitrary: c)
  case Nil
  then show ?case by simp
next
  case (Cons b bs)
  let ?t = "c + uint b"
  have t0: "0 \<le> ?t" using Cons.prems by simp
  then have d0: "0 \<le> drop_bit 8 ?t" by simp
  have ih: "int (le_counter (add_carry (drop_bit 8 ?t) bs)) =
      (int (le_counter bs) + ?t div 256) mod 256 ^ length bs"
    using Cons.IH [OF d0] by (simp add: drop_bit_eq_div)
  have "uint (word_of_int ?t :: 8 word) = ?t mod 2 ^ LENGTH(8)"
    by (rule uint_word_of_int)
  then have u: "int (unat (word_of_int ?t :: 8 word)) = ?t mod 256"
    by (simp only: of_nat_unat) simp
  have "(int (le_counter (b # bs)) + c) mod 256 ^ length (b # bs) =
      (?t + 256 * int (le_counter bs)) mod (256 * 256 ^ length bs)"
    by (simp add: algebra_simps)
  also have "\<dots> = ?t mod 256 + 256 * ((int (le_counter bs) + ?t div 256) mod 256 ^ length bs)"
    by (rule mod_256_step) simp
  finally have r: "(int (le_counter (b # bs)) + c) mod 256 ^ length (b # bs) =
      ?t mod 256 + 256 * ((int (le_counter bs) + ?t div 256) mod 256 ^ length bs)" .
  have "int (le_counter (add_carry c (b # bs))) =
      int (unat (word_of_int ?t :: 8 word)) +
      256 * int (le_counter (add_carry (drop_bit 8 ?t) bs))"
    by (simp only: add_carry.simps le_counter.simps of_nat_add of_nat_mult of_nat_numeral)
  with ih u r show ?case
    by (simp only:)
qed

lemma add_carry_all_ff: "add_carry 1 (replicate n 255) = replicate n 0"
  by (induction n) (simp_all add: drop_bit_eq_div)

text \<open>
  C2. For every byte sequence \<open>N\<close> the successor computed by \<open>validateNonce\<close> has the
  length of \<open>N\<close> and, read as a little-endian counter, is the counter of \<open>N\<close> plus one
  modulo \<open>256 ^ length N\<close>: the carry runs through all bytes and the last carry is
  dropped. The successor of \<open>n\<close> bytes \<open>0xFF\<close> is \<open>n\<close> bytes zero. The successor is a
  function of \<open>N\<close> alone.
\<close>

theorem C2_nonce_successor:
  "length (incrementNonce N) = length N \<and>
   le_counter (incrementNonce N) = (le_counter N + 1) mod 256 ^ length N \<and>
   incrementNonce (replicate n 255) = replicate n 0"
proof -
  have "int (le_counter (incrementNonce N)) = int ((le_counter N + 1) mod 256 ^ length N)"
    using le_counter_add_carry [of 1 N]
    by (simp add: incrementNonce_add_carry zmod_int add.commute)
  then have "le_counter (incrementNonce N) = (le_counter N + 1) mod 256 ^ length N"
    by (simp only: int_int_eq)
  then show ?thesis
    by (simp add: incrementNonce_add_carry length_add_carry add_carry_all_ff)
qed

section \<open>Decrypting a response\<close>

lemma colon_message_neq: "a @ CHR '':'' # b \<noteq> ''Bad nonce in response''"
proof
  assume "a @ CHR '':'' # b = ''Bad nonce in response''"
  then have "set (a @ CHR '':'' # b) = set ''Bad nonce in response''"
    by (rule arg_cong)
  moreover have "CHR '':'' \<in> set (a @ CHR '':'' # b)"
    by simp
  ultimately have "CHR '':'' \<in> set ''Bad nonce in response''"
    by (simp only:)
  then show False
    by simp
qed

lemma checkResponseError_not_bad_nonce:
  "checkResponseError e payload \<noteq> Inl (Error ''Bad nonce in response'')"
  by (auto simp: checkResponseError_def Let_def colon_message_neq split: option.splits)

lemma fieldFromBase64_not_bad_nonce:
  "fieldFromBase64 e v ''message'' \<noteq> Inl (Error ''Bad nonce in response'')"
  "fieldFromBase64 e v ''nonce'' \<noteq> Inl (Error ''Bad nonce in response'')"
  by (auto simp: fieldFromBase64_def split: option.splits)

lemma validateNonce_cases:
  assumes "fromBase64 e nonce = Some nonceData"
  shows "validateNonce e nonce incrementedNonce =
    (if incrementedNonce = Some (toBase64 e (incrementNonce nonceData)) then Inr ()
     else Inl (Error ''Bad nonce in response''))"
  using assms by (auto simp: validateNonce_def Let_def)

lemma after_nonce_not_bad_nonce:
  assumes "\<not> is_falsy (res_message response)"
    and "validateNonce e (enc_nonce req) (res_nonce response) = Inr ()"
  shows "decryptResponsePayload e p req response \<noteq> Inl (Error ''Bad nonce in response'')"
  using assms fieldFromBase64_not_bad_nonce [of e] checkResponseError_not_bad_nonce [of e]
  by (auto simp: decryptResponsePayload_def tweetnaclBox_open_def
      split: sum.splits option.splits json_value.splits)

text \<open>
  C1. For a request whose nonce decodes to the bytes \<open>nonceData\<close> and a response that
  carries a message, \<open>decryptResponsePayload\<close> fails with the error
  \<open>Bad nonce in response\<close> if and only if the nonce field of the response is not the base64
  string of the successor of \<open>nonceData\<close>. No other step of the function raises that
  error, and the nonce is checked before anything is decrypted: whether the ciphertext
  would decrypt plays no part.
\<close>

theorem C1_bad_nonce_iff:
  assumes "\<not> is_falsy (res_message response)"
    and "fromBase64 e (enc_nonce req) = Some nonceData"
  shows "decryptResponsePayload e p req response = Inl (Error ''Bad nonce in response'')
     \<longleftrightarrow> res_nonce response \<noteq> Some (toBase64 e (incrementNonce nonceData))"
proof (cases "res_nonce response = Some (toBase64 e (incrementNonce nonceData))")
  case True
  then have "validateNonce e (enc_nonce req) (res_nonce response) = Inr ()"
    using assms(2) by (simp add: validateNonce_cases)
  with assms(1) True show ?thesis
    by (simp add: after_nonce_not_bad_nonce)
next
  case False
  then have "validateNonce e (enc_nonce req) (res_nonce response) =
      Inl (Error ''Bad nonce in response'')"
    using assms(2) by (simp add: validateNonce_cases)
  with assms(1) False show ?thesis
    by (simp add: decryptResponsePayload_def)
qed

theorem C1_bad_nonce_iff_witness:
  "decryptResponsePayload demo_env demo_protocol demo_request demo_response
     = Inr (Some (JSON_object
                   \<lparr>res_action = None, res_message = None, res_nonce = None,
                    res_publicKey = None, res_error = None, res_errorCode = None,
                    res_hash = None\<rparr>)) \<and>
   decryptResponsePayload demo_env demo_protocol demo_request
       (demo_response\<lparr>res_nonce := Some ''AA''\<rparr>)
     = Inl (Error ''Bad nonce in response'')"
proof -
  have m: "\<not> is_falsy (res_message (demo_response\<lparr>res_nonce := Some ''AA''\<rparr>))"
    by (simp add: is_falsy_def demo_env_def demo_protocol_def demo_request_def demo_response_def)
  have d: "fromBase64 demo_env (enc_nonce demo_request) = Some [255, 0]"
    by (simp add: demo_env_def demo_protocol_def demo_request_def demo_response_def)
  have n: "res_nonce (demo_response\<lparr>res_nonce := Some ''AA''\<rparr>)
      \<noteq> Some (toBase64 demo_env (incrementNonce [255, 0]))"
    by (simp add: demo_env_def demo_protocol_def demo_request_def demo_response_def incrementNonce_def validateNonce_loop.simps)
  have "decryptResponsePayload demo_env demo_protocol demo_request
       (demo_response\<lparr>res_nonce := Some ''AA''\<rparr>) = Inl (Error ''Bad nonce in response'')"
    using C1_bad_nonce_iff [OF m d, of demo_protocol] n by simp
  moreover have "decryptResponsePayload demo_env demo_protocol demo_request demo_response
     = Inr (Some (JSON_object
                   \<lparr>res_action = None, res_message = None, res_nonce = None,
                    res_publicKey = None, res_error = None, res_errorCode = None,
                    res_hash = None\<rparr>))"
    by (simp add: decryptResponsePayload_def is_falsy_def validateNonce_def
      incrementNonce_def validateNonce_loop.simps fieldFromBase64_def tweetnaclBox_open_def
      checkResponseError_def demo_env_def demo_protocol_def demo_request_def demo_response_def)
  ultimately show ?thesis by simp
qed

text \<open>
  Against C6 as it is stated: the code has no error of its own for a ciphertext that does
  not authenticate, and does not test the result of \<^verbatim>\<open>box.open\<close>. In the run below the
  nonce check and both decodings succeed and the cipher returns \<^verbatim>\<open>null\<close>, which is no
  exception; the error of the call is the \<open>TypeError\<close> with which the text decoder
  rejects \<^verbatim>\<open>null\<close>.
\<close>

theorem C6_decoder_error_counterexample:
  "validateNonce demo_env (enc_nonce demo_request) (Some ''AB'') = Inr () \<and>
   tweetnaclBox_open demo_env [0, 0] [0, 1] (keewebPublicKey demo_protocol)
       (secretKey (ownKeys demo_protocol)) = Inr None \<and>
   TextDecoder_decode demo_env None = Inl ''not a buffer source'' \<and>
   decryptResponsePayload demo_env demo_protocol demo_request
       (demo_response\<lparr>res_message := Some ''AA''\<rparr>) =
     Inl (TypeError ''not a buffer source'')"
  by (simp add: decryptResponsePayload_def is_falsy_def validateNonce_def incrementNonce_def
      validateNonce_loop.simps fieldFromBase64_def tweetnaclBox_open_def demo_env_def
      demo_protocol_def demo_request_def demo_response_def)

text \<open>
  C6, as the code has it. For a response with a message whose nonce check and whose two
  base64 decodings succeed, and whose ciphertext the cipher refuses to open under the
  peer's public key, the own secret key and the decoded nonce, the \<^verbatim>\<open>null\<close> of
  \<^verbatim>\<open>box.open\<close> is handed to the text decoder untested. Where the decoder rejects
  \<^verbatim>\<open>null\<close>, \<open>decryptResponsePayload\<close> fails with the decoder's \<open>TypeError\<close> and returns no
  payload.
\<close>

theorem C6_decrypt_failure:
  assumes "\<not> is_falsy (res_message response)"
    and "validateNonce e (enc_nonce req) (res_nonce response) = Inr ()"
    and "fieldFromBase64 e (res_message response) ''message'' = Inr message"
    and "fieldFromBase64 e (res_nonce response) ''nonce'' = Inr nonce"
    and "keewebPublicKey p = Some peerKey"
    and "nacl_box_open e message nonce peerKey (secretKey (ownKeys p)) = Inr None"
    and "TextDecoder_decode e None = Inl m"
  shows "decryptResponsePayload e p req response = Inl (TypeError m)"
  using assms
  by (simp add: decryptResponsePayload_def tweetnaclBox_open_def)

theorem C6_decrypt_failure_witness:
  "decryptResponsePayload demo_env demo_protocol demo_request
       (demo_response\<lparr>res_message := Some ''AA''\<rparr>) =
      Inl (TypeError ''not a buffer source'')"
proof -
  let ?r = "demo_response\<lparr>res_message := Some ''AA''\<rparr>"
  have 1: "\<not> is_falsy (res_message ?r)"
    by (simp add: is_falsy_def demo_response_def)
  have 2: "validateNonce demo_env (enc_nonce demo_request) (res_nonce ?r) = Inr ()"
    by (simp add: validateNonce_def incrementNonce_def validateNonce_loop.simps
        demo_env_def demo_request_def demo_response_def)
  have 3: "fieldFromBase64 demo_env (res_message ?r) ''message'' = Inr [0, 0]"
    by (simp add: fieldFromBase64_def demo_env_def demo_response_def)
  have 4: "fieldFromBase64 demo_env (res_nonce ?r) ''nonce'' = Inr [0, 1]"
    by (simp add: fieldFromBase64_def demo_env_def demo_response_def)
  have 5: "keewebPublicKey demo_protocol = Some [1, 1]"
    by (simp add: demo_protocol_def)
  have 6: "nacl_box_open demo_env [0, 0] [0, 1] [1, 1] (secretKey (ownKeys demo_protocol)) = Inr None"
    by (simp add: demo_env_def)
  have 7: "TextDecoder_decode demo_env None = Inl ''not a buffer source''"
    by (simp add: demo_env_def)
  show ?thesis
    by (rule C6_decrypt_failure [OF 1 2 3 4 5 6 7])
qed

text \<open>
  C8. For a response whose message field is absent or the empty string,
  \<open>decryptResponsePayload\<close> returns \<^verbatim>\<open>undefined\<close> and does not fail, whatever the other
  fields of the response, the request and the keys are.
\<close>

theorem C8_no_message:
  assumes "is_falsy (res_message response)"
  shows "decryptResponsePayload e p req response = Inr None"
  using assms by (simp add: decryptResponsePayload_def)

theorem C8_no_message_witness:
  "decryptResponsePayload demo_env demo_protocol demo_request
      (demo_response\<lparr>res_message := None\<rparr>) = Inr None \<and>
   decryptResponsePayload demo_env demo_protocol demo_request
      (demo_response\<lparr>res_message := Some [], res_error := Some ''locked''\<rparr>) = Inr None"
proof -
  have a: "is_falsy (res_message (demo_response\<lparr>res_message := None\<rparr>))"
    by (simp add: is_falsy_def)
  have b: "is_falsy (res_message (demo_response\<lparr>res_message := Some [], res_error := Some ''locked''\<rparr>))"
    by (simp add: is_falsy_def)
  show ?thesis
    using C8_no_message [OF a, of demo_env demo_protocol demo_request]
      C8_no_message [OF b, of demo_env demo_protocol demo_request]
    by simp
qed

text \<open>
  C9. For a response without a message field the result of \<open>decryptResponsePayload\<close>
  does not depend on the nonce field: with any claimed nonce, present or not, the
  response is accepted as \<^verbatim>\<open>undefined\<close>. The instances below are a missing nonce, a
  malformed one and one that is not the successor, each of which \<open>validateNonce\<close> itself
  rejects.
\<close>

theorem C9_no_nonce_check_without_message:
  assumes "res_message response = None"
  shows "decryptResponsePayload e p req (response\<lparr>res_nonce := claimed\<rparr>) = Inr None"
  using assms by (simp add: decryptResponsePayload_def is_falsy_def)

theorem C9_no_nonce_check_without_message_witness:
  "validateNonce demo_env (enc_nonce demo_request) None = Inl (Error ''Bad nonce in response'') \<and>
   decryptResponsePayload demo_env demo_protocol demo_request
      (demo_response\<lparr>res_message := None, res_nonce := None\<rparr>) = Inr None \<and>
   validateNonce demo_env (enc_nonce demo_request) (Some ''!!'') = Inl (Error ''Bad nonce in response'') \<and>
   decryptResponsePayload demo_env demo_protocol demo_request
      (demo_response\<lparr>res_message := None, res_nonce := Some ''!!''\<rparr>) = Inr None \<and>
   validateNonce demo_env (enc_nonce demo_request) (Some ''/A'') = Inl (Error ''Bad nonce in response'') \<and>
   decryptResponsePayload demo_env demo_protocol demo_request
      (demo_response\<lparr>res_message := None, res_nonce := Some ''/A''\<rparr>) = Inr None"
proof -
  have m: "res_message (demo_response\<lparr>res_message := None\<rparr>) = None"
    by simp
  have v: "validateNonce demo_env (enc_nonce demo_request) None = Inl (Error ''Bad nonce in response'')"
    "validateNonce demo_env (enc_nonce demo_request) (Some ''!!'') = Inl (Error ''Bad nonce in response'')"
    "validateNonce demo_env (enc_nonce demo_request) (Some ''/A'') = Inl (Error ''Bad nonce in response'')"
    by (simp_all add: decryptResponsePayload_def is_falsy_def validateNonce_def
      incrementNonce_def validateNonce_loop.simps fieldFromBase64_def tweetnaclBox_open_def
      checkResponseError_def demo_env_def demo_protocol_def demo_request_def demo_response_def)
  show ?thesis
    using C9_no_nonce_check_without_message [OF m, of demo_env demo_protocol demo_request None]
      C9_no_nonce_check_without_message [OF m, of demo_env demo_protocol demo_request "Some ''!!''"]
      C9_no_nonce_check_without_message [OF m, of demo_env demo_protocol demo_request "Some ''/A''"]
      v
    by simp
qed

text \<open>
  Against C7 as it is stated: \<open>makeEncryptedRequest\<close> has no check of its own and the code
  no error for a missing handshake. With the peer's key unset the call fails inside
  tweetnacl, with the \<open>TypeError\<close> of the library's argument check.
\<close>

theorem C7_library_error_counterexample:
  "tweetnaclBox demo_env
       (TextEncoder_encode demo_env (JSON_stringify demo_env (demo_payload ''get-databasehash'')))
       [0, 1] None [0] =
     Inl (TypeError ''unexpected type, use Uint8Array'') \<and>
   makeEncryptedRequest demo_env (demo_protocol\<lparr>keewebPublicKey := None\<rparr>)
       (demo_payload ''get-databasehash'') [0, 1] =
     Inl (TypeError ''unexpected type, use Uint8Array'')"
  by (simp add: makeEncryptedRequest_def tweetnaclBox_def demo_protocol_def)

text \<open>
  C7, as the code has it. While the peer's public key is not set, \<open>makeEncryptedRequest\<close>
  fails at once for every payload and nonce, with the \<open>TypeError\<close> that tweetnacl raises
  for the unset key, and \<open>getDatabaseHash\<close> fails with it before it reaches \<open>request\<close>:
  the backend is left exactly as it was, with nothing queued and nothing sent.
\<close>

theorem C7_no_peer_key:
  assumes "keewebPublicKey p = None"
  shows "makeEncryptedRequest e p payload nonce =
           Inl (TypeError ''unexpected type, use Uint8Array'') \<and>
         getDatabaseHash e p nonce b =
           (Inl (TypeError ''unexpected type, use Uint8Array''), b)"
  using assms
  by (simp add: makeEncryptedRequest_def getDatabaseHash_def tweetnaclBox_def)

theorem C7_no_peer_key_witness:
  "getDatabaseHash demo_env (demo_protocol\<lparr>keewebPublicKey := None\<rparr>) [0, 1] new_Backend =
     (Inl (TypeError ''unexpected type, use Uint8Array''), new_Backend)"
proof -
  have k: "keewebPublicKey (demo_protocol\<lparr>keewebPublicKey := None\<rparr>) = None"
    by simp
  show ?thesis
    using C7_no_peer_key [OF k, of demo_env _ "[0, 1]" new_Backend] by simp
qed

section \<open>The state of the connection\<close>

lemma demo_connected_eq:
  "demo_connected =
    \<lparr>useNativeApp = True, keeWebUrl = None, state = Connected, connectionError = None,
       transport = Some TransportNativeMessaging, requestQueue = [],
       currentRequest = None,
       protocol =
         Some
          \<lparr>clientId = ''AB'', ownKeys = \<lparr>publicKey = [1], secretKey = [0]\<rparr>,
             keewebPublicKey = Some [1, 1]\<rparr>,
       timers = [], nextTimer = 1,
       settled = [(0, Resolved demo_handshake_response)],
       emitted = [StateChanged, StateChanged, StateChanged, ConnectFinished None],
       connectWaiters = [], connectSettled = [(0, ConnectResolved)],
       transportLog =
         [T_connect,
          T_request
           \<lparr>req_action = ''change-public-keys'', req_message = None,
              req_nonce = Some ''AB'', req_clientID = Some ''AB'',
              req_publicKey = Some ''B''\<rparr>],
       submitted =
         [\<lparr>req_action = ''change-public-keys'', req_message = None,
             req_nonce = Some ''AB'', req_clientID = Some ''AB'',
             req_publicKey = Some ''B''\<rparr>]\<rparr>"
  unfolding demo_connected_def
  by (simp add: run_def new_Backend_def init_def resetStateByConfig_def
      setState_def emit_def connect_def rejectPendingRequests_def initTransport_def is_falsy_def
      connect_transportConnected_def changePublicKeys_request_def Backend_request_def
      processRequestQueue_def sendTransportRequest_def transportMessage_def settle_def
      clearTimeout_def connect_handshakeResolved_def changePublicKeys_response_def
      checkResponseError_def settleConnect_def timeoutFired_def defaultKeeWebUrl_def
      connect_failed_def demo_env_def demo_protocol_def demo_handshake_response_def
      demo_payload_def Let_def)

text \<open>
  C10. \<open>setState\<close> emits \<open>state-changed\<close> if and only if the new state differs from the
  current one: it then appends exactly that one event; setting the state to its current
  value leaves the backend as it is.
\<close>

theorem C10_setState:
  "emitted (setState st b) = (if state b = st then emitted b else emitted b @ [StateChanged]) \<and>
   (emitted (setState st b) \<noteq> emitted b \<longleftrightarrow> state b \<noteq> st) \<and>
   (state b = st \<longrightarrow> setState st b = b) \<and>
   state (setState st b) = st"
  by (simp add: setState_def emit_def)

theorem C10_setState_witness:
  "setState Connected demo_connected = demo_connected \<and>
   emitted (setState StateError demo_connected) = emitted demo_connected @ [StateChanged]"
proof -
  have s: "state demo_connected = Connected"
    by (simp add: demo_connected_eq)
  show ?thesis
    using C10_setState [of Connected demo_connected] C10_setState [of StateError demo_connected] s
    by simp
qed

section \<open>The request queue\<close>

lemma sent_requests_append:
  "sent_requests (xs @ ys) = sent_requests xs @ sent_requests ys"
  by (induction xs rule: sent_requests.induct) simp_all

lemma queue_inv_cong:
  assumes "queue_inv b"
    and "submitted b' = submitted b" and "requestQueue b' = requestQueue b"
    and "sent_requests (transportLog b') = sent_requests (transportLog b)"
    and "currentRequest b' = currentRequest b \<or> currentRequest b' = None"
  shows "queue_inv b'"
  using assms unfolding queue_inv_def by auto

lemma queue_inv_cleared:
  assumes "queue_inv b"
    and "submitted b' = submitted b" and "requestQueue b' = []"
    and "sent_requests (transportLog b') = sent_requests (transportLog b)"
    and "currentRequest b' = None"
  shows "queue_inv b'"
proof -
  from assms(1) obtain pre where p: "submitted b = pre @ map request (requestQueue b)"
    "subseq (sent_requests (transportLog b)) pre"
    unfolding queue_inv_def by blast
  have "subseq (sent_requests (transportLog b)) (pre @ map request (requestQueue b))"
    using p(2) by (rule subseq_rev_drop_many)
  then show ?thesis
    unfolding queue_inv_def using assms(2-5) p(1)
    by (intro exI [of _ "submitted b"]) simp
qed

lemma fold_settle_fields:
  "submitted (fold (\<lambda>req. settle (timeout req) v) xs b) = submitted b"
  "requestQueue (fold (\<lambda>req. settle (timeout req) v) xs b) = requestQueue b"
  "transportLog (fold (\<lambda>req. settle (timeout req) v) xs b) = transportLog b"
  "currentRequest (fold (\<lambda>req. settle (timeout req) v) xs b) = currentRequest b"
  "state (fold (\<lambda>req. settle (timeout req) v) xs b) = state b"
  "transport (fold (\<lambda>req. settle (timeout req) v) xs b) = transport b"
  "protocol (fold (\<lambda>req. settle (timeout req) v) xs b) = protocol b"
  "connectWaiters (fold (\<lambda>req. settle (timeout req) v) xs b) = connectWaiters b"
  "connectSettled (fold (\<lambda>req. settle (timeout req) v) xs b) = connectSettled b"
  by (induction xs arbitrary: b) (simp_all add: settle_def)

lemma rejectPendingRequests_fields:
  "submitted (rejectPendingRequests msg b) = submitted b"
  "requestQueue (rejectPendingRequests msg b) = []"
  "transportLog (rejectPendingRequests msg b) = transportLog b"
  "currentRequest (rejectPendingRequests msg b) = None"
  "state (rejectPendingRequests msg b) = state b"
  "transport (rejectPendingRequests msg b) = transport b"
  "protocol (rejectPendingRequests msg b) = protocol b"
  "connectWaiters (rejectPendingRequests msg b) = connectWaiters b"
  "connectSettled (rejectPendingRequests msg b) = connectSettled b"
  by (simp_all add: rejectPendingRequests_def Let_def fold_settle_fields settle_def
      clearTimeout_def split: option.splits)

lemma fold_settleConnect_fields:
  "submitted (fold (\<lambda>k. settleConnect k v) ks b) = submitted b"
  "requestQueue (fold (\<lambda>k. settleConnect k v) ks b) = requestQueue b"
  "transportLog (fold (\<lambda>k. settleConnect k v) ks b) = transportLog b"
  "currentRequest (fold (\<lambda>k. settleConnect k v) ks b) = currentRequest b"
  "state (fold (\<lambda>k. settleConnect k v) ks b) = state b"
  "transport (fold (\<lambda>k. settleConnect k v) ks b) = transport b"
  "protocol (fold (\<lambda>k. settleConnect k v) ks b) = protocol b"
  "emitted (fold (\<lambda>k. settleConnect k v) ks b) = emitted b"
  by (induction ks arbitrary: b) (simp_all add: settleConnect_def)

lemma emit_fields:
  "submitted (emit ev b) = submitted b"
  "requestQueue (emit ev b) = requestQueue b"
  "transportLog (emit ev b) = transportLog b"
  "currentRequest (emit ev b) = currentRequest b"
  "state (emit ev b) = state b"
  "transport (emit ev b) = transport b"
  "protocol (emit ev b) = protocol b"
  "emitted (emit ev b) = emitted b @ [ev]"
  by (simp_all add: emit_def fold_settleConnect_fields split: BackendEvents.splits)

lemma setState_fields:
  "submitted (setState st b) = submitted b"
  "requestQueue (setState st b) = requestQueue b"
  "transportLog (setState st b) = transportLog b"
  "currentRequest (setState st b) = currentRequest b"
  "state (setState st b) = st"
  "transport (setState st b) = transport b"
  "protocol (setState st b) = protocol b"
  by (simp_all add: setState_def emit_fields)

lemma connect_failed_fields:
  "submitted (connect_failed k err b) = submitted b"
  "requestQueue (connect_failed k err b) = requestQueue b"
  "transportLog (connect_failed k err b) = transportLog b"
  "currentRequest (connect_failed k err b) = currentRequest b"
  by (simp_all add: connect_failed_def settleConnect_def emit_fields setState_fields)

lemma queue_inv_processRequestQueue:
  assumes "queue_inv b"
  shows "queue_inv (processRequestQueue b)"
proof (cases "processRequestQueue b = b")
  case True
  with assms show ?thesis by simp
next
  case False
  then obtain item rest where q: "requestQueue b = item # rest" and c: "currentRequest b = None"
    and r: "processRequestQueue b =
      sendTransportRequest (request item) (b\<lparr>currentRequest := Some item, requestQueue := rest\<rparr>)"
    by (auto simp: processRequestQueue_def split: list.splits if_splits)
  from assms obtain pre where p: "submitted b = pre @ map request (requestQueue b)"
    "subseq (sent_requests (transportLog b)) pre"
    unfolding queue_inv_def by blast
  let ?b' = "processRequestQueue b"
  have s: "submitted ?b' = (pre @ [request item]) @ map request (requestQueue ?b')"
    using p(1) q by (simp add: r sendTransportRequest_def split: option.splits)
  have "sent_requests (transportLog ?b') = sent_requests (transportLog b) \<or>
      sent_requests (transportLog ?b') = sent_requests (transportLog b) @ [request item]"
    by (simp add: r sendTransportRequest_def sent_requests_append split: option.splits)
  then have e: "subseq (sent_requests (transportLog ?b')) (pre @ [request item])"
  proof
    assume "sent_requests (transportLog ?b') = sent_requests (transportLog b)"
    with p(2) show ?thesis
      by (simp add: subseq_rev_drop_many)
  next
    assume "sent_requests (transportLog ?b') = sent_requests (transportLog b) @ [request item]"
    with p(2) show ?thesis
      by (simp add: list_emb_append_mono)
  qed
  have "currentRequest ?b' = Some item"
    by (simp add: r sendTransportRequest_def split: option.splits)
  with s e show ?thesis
    unfolding queue_inv_def by (intro exI [of _ "pre @ [request item]"]) simp
qed

lemma queue_inv_rejectPendingRequests:
  "queue_inv b \<Longrightarrow> queue_inv (rejectPendingRequests msg b)"
  by (erule queue_inv_cleared) (simp_all add: rejectPendingRequests_fields)

lemma queue_inv_setState: "queue_inv b \<Longrightarrow> queue_inv (setState st b)"
  by (erule queue_inv_cong) (simp_all add: setState_fields)

lemma queue_inv_connect_failed: "queue_inv b \<Longrightarrow> queue_inv (connect_failed k err b)"
  by (erule queue_inv_cong) (simp_all add: connect_failed_fields)

lemma queue_inv_resetStateByConfig: "queue_inv b \<Longrightarrow> queue_inv (resetStateByConfig b)"
  by (erule queue_inv_cong) (simp_all add: resetStateByConfig_def setState_fields)

lemma queue_inv_init: "queue_inv b \<Longrightarrow> queue_inv (init u w b)"
  by (erule queue_inv_cong) (simp_all add: init_def resetStateByConfig_def setState_fields)

lemma queue_inv_storageChanged_resume:
  "queue_inv b \<Longrightarrow> queue_inv (storageChanged_resume b)"
  unfolding storageChanged_resume_def
  by (rule queue_inv_rejectPendingRequests, rule queue_inv_resetStateByConfig,
      erule queue_inv_cong) simp_all

lemma queue_inv_config:
  assumes "queue_inv b"
  shows "queue_inv (b\<lparr>useNativeApp := v\<rparr>)" and "queue_inv (b\<lparr>keeWebUrl := url\<rparr>)"
    and "queue_inv (b\<lparr>transportLog := transportLog b @ [T_removeAllListeners, T_disconnect]\<rparr>)"
    and "queue_inv (b\<lparr>transportLog := transportLog b @ [T_connect]\<rparr>)"
    and "queue_inv (b\<lparr>transportLog := transportLog b @ [T_focusKeeWeb]\<rparr>)"
    and "queue_inv (b\<lparr>connectWaiters := ws\<rparr>)"
    and "queue_inv (b\<lparr>connectionError := ce\<rparr>)"
    and "queue_inv (b\<lparr>protocol := pr\<rparr>)"
    and "queue_inv (settleConnect k cv b)"
    and "queue_inv (settle t sv b)"
    and "queue_inv (clearTimeout t b)"
    and "queue_inv (emit ev b)"
    and "queue_inv (initTransport fresh b)"
  using assms
  by (auto elim!: queue_inv_cong
      simp: sent_requests_append settleConnect_def settle_def clearTimeout_def emit_fields
        initTransport_def)

lemma queue_inv_storageChanged: "queue_inv b \<Longrightarrow> queue_inv (storageChanged ch b)"
proof -
  assume inv: "queue_inv b"
  have u: "queue_inv (b\<lparr>useNativeApp := v, transportLog := transportLog b @ [T_removeAllListeners, T_disconnect]\<rparr>)" for v
    using inv by (rule queue_inv_cong) (simp_all add: sent_requests_append)
  have w: "queue_inv (b\<lparr>keeWebUrl := v, transportLog := transportLog b @ [T_removeAllListeners, T_disconnect]\<rparr>)" for v
    using inv by (rule queue_inv_cong) (simp_all add: sent_requests_append)
  show ?thesis
    unfolding storageChanged_def Let_def
    using inv u w
    by (auto split: option.splits prod.splits
        intro!: queue_inv_rejectPendingRequests queue_inv_resetStateByConfig queue_inv_config)
qed

lemma queue_inv_connect: "queue_inv b \<Longrightarrow> queue_inv (connect k fresh b)"
  unfolding connect_def Let_def
  by (auto intro!: queue_inv_config queue_inv_connect_failed queue_inv_setState
      queue_inv_rejectPendingRequests)

lemma queue_inv_enqueue:
  assumes "queue_inv b"
  shows "queue_inv (b\<lparr>nextTimer := n, timers := ts,
      requestQueue := requestQueue b @ [\<lparr>request = r, timeout = t\<rparr>],
      submitted := submitted b @ [r]\<rparr>)"
  using assms unfolding queue_inv_def by auto

lemma queue_inv_Backend_request: "queue_inv b \<Longrightarrow> queue_inv (Backend_request r b)"
  unfolding Backend_request_def Let_def
  by (intro queue_inv_processRequestQueue queue_inv_enqueue)

lemma queue_inv_connect_transportConnected:
  "queue_inv b \<Longrightarrow> queue_inv (connect_transportConnected e k nonce b)"
  unfolding connect_transportConnected_def
  by (auto split: option.splits intro!: queue_inv_Backend_request queue_inv_connect_failed)

lemma queue_inv_connect_handshakeResolved:
  "queue_inv b \<Longrightarrow> queue_inv (connect_handshakeResolved e k response b)"
  unfolding connect_handshakeResolved_def
  by (auto split: option.splits sum.splits
      intro!: queue_inv_connect_failed queue_inv_config queue_inv_setState)

lemma queue_inv_transportDisconnected:
  "queue_inv b \<Longrightarrow> queue_inv (transportDisconnected e b)"
  unfolding transportDisconnected_def Let_def
  by (intro queue_inv_rejectPendingRequests queue_inv_setState queue_inv_config)

lemma queue_inv_release:
  "queue_inv b \<Longrightarrow> queue_inv (b\<lparr>currentRequest := None\<rparr>)"
  by (erule queue_inv_cong) simp_all

lemma queue_inv_transportMessage: "queue_inv b \<Longrightarrow> queue_inv (transportMessage msg b)"
  unfolding transportMessage_def focusKeeWebTab_def
  by (auto split: option.splits
      intro!: queue_inv_processRequestQueue queue_inv_release queue_inv_config)

lemma queue_inv_timeoutFired: "queue_inv b \<Longrightarrow> queue_inv (timeoutFired e t b)"
  unfolding timeoutFired_def
  by (rule queue_inv_config, erule queue_inv_cong) simp_all

lemma queue_inv_new: "queue_inv new_Backend"
  by (simp add: queue_inv_def new_Backend_def)

lemma queue_inv_step: "queue_inv b \<Longrightarrow> queue_inv (step e ev b)"
  by (cases ev)
    (simp_all add: queue_inv_init queue_inv_storageChanged queue_inv_storageChanged_resume
      queue_inv_connect queue_inv_connect_transportConnected
      queue_inv_connect_handshakeResolved queue_inv_connect_failed
      queue_inv_transportDisconnected queue_inv_transportMessage queue_inv_Backend_request
      queue_inv_timeoutFired)

lemma reachable_queue_inv: "reachable e b \<Longrightarrow> queue_inv b"
  by (induction rule: reachable.induct) (simp_all add: queue_inv_new queue_inv_step)

lemma processRequestQueue_dispatch:
  assumes "dispatch_condition b"
  shows "currentRequest (processRequestQueue b) = Some (hd (requestQueue b))"
    and "requestQueue (processRequestQueue b) = tl (requestQueue b)"
    and "transportLog (processRequestQueue b) =
      (case transport b of
         None \<Rightarrow> transportLog b
       | Some tr \<Rightarrow> transportLog b @ [T_request (request (hd (requestQueue b)))])"
  using assms
  by (auto simp: dispatch_condition_def processRequestQueue_def sendTransportRequest_def
      split: list.splits option.splits)

lemma Backend_request_busy:
  assumes "currentRequest b = Some cur"
  shows "currentRequest (Backend_request r b) = Some cur"
    and "requestQueue (Backend_request r b) =
      requestQueue b @ [\<lparr>request = r, timeout = nextTimer b\<rparr>]"
    and "transportLog (Backend_request r b) = transportLog b"
  using assms
  by (simp_all add: Backend_request_def Let_def processRequestQueue_def split: list.splits)

lemma processRequestQueue_idle:
  assumes "\<not> dispatch_condition b"
  shows "processRequestQueue b = b"
  using assms
  by (cases "state b")
    (auto simp: dispatch_condition_def processRequestQueue_def split: list.splits)

text \<open>
  The rule of dispatch and the order of the queue. The field \<open>currentRequest\<close> holds the
  request to which the next message is matched. \<open>processRequestQueue\<close> moves the head of the queue into that field and hands it to the
  transport installed if the condition of the specification holds, and changes nothing
  otherwise; in particular it never dispatches while that field is set, and a request
  submitted meanwhile is only queued. In every reachable state the queue keeps
  the order of submission: the requests handed to the transport are, in order, among the
  submitted requests that precede all queued ones, and the request in the field is the
  last that left the queue.
\<close>

theorem request_queue_rule:
  "(dispatch_condition b \<longrightarrow>
      currentRequest (processRequestQueue b) = Some (hd (requestQueue b)) \<and>
      requestQueue (processRequestQueue b) = tl (requestQueue b) \<and>
      transportLog (processRequestQueue b) =
        (case transport b of
           None \<Rightarrow> transportLog b
         | Some tr \<Rightarrow> transportLog b @ [T_request (request (hd (requestQueue b)))])) \<and>
   (\<not> dispatch_condition b \<longrightarrow> processRequestQueue b = b) \<and>
   (currentRequest b = Some cur \<longrightarrow>
      currentRequest (Backend_request r b) = Some cur \<and>
      requestQueue (Backend_request r b) =
        requestQueue b @ [\<lparr>request = r, timeout = nextTimer b\<rparr>] \<and>
      transportLog (Backend_request r b) = transportLog b) \<and>
   (reachable e b \<longrightarrow>
      (\<exists>pre. submitted b = pre @ map request (requestQueue b) \<and>
             subseq (sent_requests (transportLog b)) pre \<and>
             (\<forall>item. currentRequest b = Some item \<longrightarrow>
                pre \<noteq> [] \<and> last pre = request item)))"
  using processRequestQueue_dispatch [of b] processRequestQueue_idle [of b]
    Backend_request_busy [of b cur r] reachable_queue_inv [of e b]
  unfolding queue_inv_def by blast

lemma reachable_run: "reachable e b \<Longrightarrow> reachable e (run e evs b)"
  unfolding run_def
  by (induction evs arbitrary: b) (simp_all add: reachable_step)

lemma demo_queued_eq:
  "demo_queued =
     demo_connected
       \<lparr>requestQueue := [\<lparr>request = demo_payload ''get-totp'', timeout = 2\<rparr>],
        currentRequest := None, timers := [2], nextTimer := 3,
        settled := settled demo_connected @ [(1, Rejected (Error ''errorRequestTimeout''))],
        transportLog := transportLog demo_connected @ [T_request (demo_payload ''get-logins'')],
        submitted := submitted demo_connected @
          [demo_payload ''get-logins'', demo_payload ''get-totp'']\<rparr>"
  unfolding demo_queued_def demo_connected_eq
  by (simp add: run_def new_Backend_def init_def resetStateByConfig_def
      setState_def emit_def connect_def rejectPendingRequests_def initTransport_def is_falsy_def
      connect_transportConnected_def changePublicKeys_request_def Backend_request_def
      processRequestQueue_def sendTransportRequest_def transportMessage_def settle_def
      clearTimeout_def connect_handshakeResolved_def changePublicKeys_response_def
      checkResponseError_def settleConnect_def timeoutFired_def defaultKeeWebUrl_def
      connect_failed_def demo_env_def demo_protocol_def demo_handshake_response_def
      demo_payload_def Let_def)

lemma demo_late_eq:
  "demo_late =
     demo_connected
       \<lparr>currentRequest := Some \<lparr>request = demo_payload ''get-totp'', timeout = 2\<rparr>,
        timers := [2], nextTimer := 3,
        settled := settled demo_connected @ [(1, Rejected (Error ''errorRequestTimeout''))],
        transportLog := transportLog demo_connected @
          [T_request (demo_payload ''get-logins''), T_request (demo_payload ''get-totp'')],
        submitted := submitted demo_connected @
          [demo_payload ''get-logins'', demo_payload ''get-totp'']\<rparr>"
  unfolding demo_late_def demo_connected_eq
  by (simp add: run_def new_Backend_def init_def resetStateByConfig_def
      setState_def emit_def connect_def rejectPendingRequests_def initTransport_def is_falsy_def
      connect_transportConnected_def changePublicKeys_request_def Backend_request_def
      processRequestQueue_def sendTransportRequest_def transportMessage_def settle_def
      clearTimeout_def connect_handshakeResolved_def changePublicKeys_response_def
      checkResponseError_def settleConnect_def timeoutFired_def defaultKeeWebUrl_def
      connect_failed_def demo_env_def demo_protocol_def demo_handshake_response_def
      demo_payload_def Let_def)

lemma demo_in_flight_eq:
  "demo_in_flight =
     demo_connected
       \<lparr>requestQueue := [\<lparr>request = demo_payload ''get-totp'', timeout = 2\<rparr>],
        currentRequest := Some \<lparr>request = demo_payload ''get-logins'', timeout = 1\<rparr>,
        timers := [1, 2], nextTimer := 3,
        transportLog := transportLog demo_connected @ [T_request (demo_payload ''get-logins'')],
        submitted := submitted demo_connected @
          [demo_payload ''get-logins'', demo_payload ''get-totp'']\<rparr>"
  unfolding demo_in_flight_def demo_connected_eq
  by (simp add: run_def new_Backend_def init_def resetStateByConfig_def
      setState_def emit_def connect_def rejectPendingRequests_def initTransport_def is_falsy_def
      connect_transportConnected_def changePublicKeys_request_def Backend_request_def
      processRequestQueue_def sendTransportRequest_def transportMessage_def settle_def
      clearTimeout_def connect_handshakeResolved_def changePublicKeys_response_def
      checkResponseError_def settleConnect_def timeoutFired_def defaultKeeWebUrl_def
      connect_failed_def demo_env_def demo_protocol_def demo_handshake_response_def
      demo_payload_def Let_def)

theorem request_queue_rule_example:
  "reachable demo_env demo_queued \<and>
   (\<exists>pre. submitted demo_queued = pre @ map request (requestQueue demo_queued) \<and>
          subseq (sent_requests (transportLog demo_queued)) pre) \<and>
   dispatch_condition demo_queued \<and>
   currentRequest (processRequestQueue demo_queued) =
     Some \<lparr>request = demo_payload ''get-totp'', timeout = 2\<rparr> \<and>
   requestQueue (processRequestQueue demo_queued) = [] \<and>
   sent_requests (transportLog (processRequestQueue demo_queued)) =
     submitted demo_queued \<and>
   \<not> dispatch_condition (processRequestQueue demo_queued) \<and>
   processRequestQueue (processRequestQueue demo_queued) = processRequestQueue demo_queued \<and>
   transportLog (Backend_request (demo_payload ''get-any-field'') demo_in_flight) =
     transportLog demo_in_flight"
proof -
  have r: "reachable demo_env demo_queued"
    unfolding demo_queued_def demo_connected_def
    by (intro reachable_run reachable_new)
  have d: "dispatch_condition demo_queued"
    by (simp add: dispatch_condition_def demo_queued_eq demo_connected_eq)
  have t: "transport demo_queued = Some TransportNativeMessaging"
    by (simp add: demo_queued_eq demo_connected_eq)
  have h: "hd (requestQueue demo_queued) = \<lparr>request = demo_payload ''get-totp'', timeout = 2\<rparr>"
    "tl (requestQueue demo_queued) = []"
    by (simp_all add: demo_queued_eq)
  have l: "sent_requests (transportLog demo_queued @ [T_request (demo_payload ''get-totp'')]) =
      submitted demo_queued"
    by (simp add: demo_queued_eq demo_connected_eq demo_payload_def)
  have c: "currentRequest (processRequestQueue demo_queued) =
      Some \<lparr>request = demo_payload ''get-totp'', timeout = 2\<rparr> \<and>
    requestQueue (processRequestQueue demo_queued) = [] \<and>
    sent_requests (transportLog (processRequestQueue demo_queued)) = submitted demo_queued"
    using request_queue_rule [where b = demo_queued and e = demo_env] d t h l by simp
  then have n: "\<not> dispatch_condition (processRequestQueue demo_queued)"
    by (simp add: dispatch_condition_def)
  have f: "currentRequest demo_in_flight =
      Some \<lparr>request = demo_payload ''get-logins'', timeout = 1\<rparr>"
    by (simp add: demo_in_flight_eq)
  have q: "transportLog (Backend_request (demo_payload ''get-any-field'') demo_in_flight) =
      transportLog demo_in_flight"
    using request_queue_rule [where b = demo_in_flight and r = "demo_payload ''get-any-field''"] f
    by simp
  have o: "\<exists>pre. submitted demo_queued = pre @ map request (requestQueue demo_queued) \<and>
      subseq (sent_requests (transportLog demo_queued)) pre"
    using request_queue_rule [where b = demo_queued and e = demo_env] r by blast
  from r o d c n q request_queue_rule [where b = "processRequestQueue demo_queued" and e = demo_env]
  show ?thesis by simp
qed

lemma demo_reconnected_eq:
  "demo_reconnected =
     demo_connected
       \<lparr>connectionError := None,
        currentRequest := Some \<lparr>request = demo_payload ''get-any-field'', timeout = 4\<rparr>,
        timers := [2, 4], nextTimer := 5,
        settled := settled demo_connected @
          [(1, Rejected (Error ''errorKeeWebDisconnected'')),
           (2, Rejected (Error ''errorKeeWebDisconnected'')),
           (3, Resolved demo_handshake_response)],
        emitted := emitted demo_connected @
          [StateChanged, StateChanged, StateChanged, ConnectFinished None],
        connectSettled := connectSettled demo_connected @ [(1, ConnectResolved)],
        transportLog := transportLog demo_connected @
          [T_request (demo_payload ''get-logins''), T_connect,
           T_request (changePublicKeys_request demo_env demo_protocol [0, 1]),
           T_request (demo_payload ''get-any-field'')],
        submitted := submitted demo_connected @
          [demo_payload ''get-logins'', demo_payload ''get-totp'',
           changePublicKeys_request demo_env demo_protocol [0, 1],
           demo_payload ''get-any-field'']\<rparr>"
  unfolding demo_reconnected_def demo_in_flight_eq demo_connected_eq
  by (simp add: run_def transportDisconnected_def setState_def emit_def connect_def
      rejectPendingRequests_def initTransport_def is_falsy_def connect_transportConnected_def
      changePublicKeys_request_def Backend_request_def processRequestQueue_def
      sendTransportRequest_def transportMessage_def settle_def clearTimeout_def
      connect_handshakeResolved_def changePublicKeys_response_def checkResponseError_def
      settleConnect_def demo_env_def demo_protocol_def demo_handshake_response_def
      demo_payload_def Let_def)

lemma demo_stale_eq:
  "demo_stale =
     demo_reconnected
       \<lparr>currentRequest := Some \<lparr>request = demo_payload ''get-databasehash'', timeout = 5\<rparr>,
        timers := [4, 5], nextTimer := 6,
        transportLog := transportLog demo_reconnected @
          [T_request (demo_payload ''get-databasehash'')],
        submitted := submitted demo_reconnected @ [demo_payload ''get-databasehash'']\<rparr>"
  unfolding demo_stale_def demo_reconnected_eq demo_connected_eq
  by (simp add: run_def timeoutFired_def Backend_request_def processRequestQueue_def
      sendTransportRequest_def settle_def demo_env_def demo_payload_def Let_def)

text \<open>
  C3 says that in every reachable state at most one request is in flight, that is,
  handed to the transport and awaiting its response. The code breaks this in the run
  \<open>demo_stale\<close>. \<open>rejectPendingRequests\<close> clears the timer of the current request but not
  the timers of the queued ones, and the callback of a timer empties \<open>currentRequest\<close>
  whosever request is there. So the timer of the rejected \<open>get-totp\<close> fires while
  \<open>get-any-field\<close> is in flight and empties its slot; the next request,
  \<open>get-databasehash\<close>, is dispatched at once. Both have been handed to the transport and
  the promises of both are pending; the next message resolves the later one and the
  earlier one stays pending.
\<close>

theorem C3_stale_timer_two_in_flight:
  "reachable demo_env demo_stale \<and>
   currentRequest demo_reconnected =
     Some \<lparr>request = demo_payload ''get-any-field'', timeout = 4\<rparr> \<and>
   2 \<in> set (timers demo_reconnected) \<and>
   map_of (settled demo_reconnected) 2 = Some (Rejected (Error ''errorKeeWebDisconnected'')) \<and>
   demo_stale = run demo_env [Ev_timeout 2, Ev_request (demo_payload ''get-databasehash'')]
     demo_reconnected \<and>
   sent_requests (transportLog demo_stale) =
     [changePublicKeys_request demo_env demo_protocol [0, 1], demo_payload ''get-logins'',
      changePublicKeys_request demo_env demo_protocol [0, 1], demo_payload ''get-any-field'',
      demo_payload ''get-databasehash''] \<and>
   map_of (settled demo_stale) 4 = None \<and>
   map_of (settled demo_stale) 5 = None \<and>
   currentRequest demo_stale =
     Some \<lparr>request = demo_payload ''get-databasehash'', timeout = 5\<rparr> \<and>
   map_of (settled (step demo_env (Ev_message demo_response) demo_stale)) 5 =
     Some (Resolved demo_response) \<and>
   map_of (settled (step demo_env (Ev_message demo_response) demo_stale)) 4 = None"
proof -
  have r: "reachable demo_env demo_stale"
    unfolding demo_stale_def demo_reconnected_def demo_in_flight_def demo_connected_def
    by (intro reachable_run reachable_new)
  have a: "currentRequest demo_reconnected =
      Some \<lparr>request = demo_payload ''get-any-field'', timeout = 4\<rparr>"
    "2 \<in> set (timers demo_reconnected)"
    "map_of (settled demo_reconnected) 2 = Some (Rejected (Error ''errorKeeWebDisconnected''))"
    by (simp_all add: demo_reconnected_eq demo_connected_eq)
  have b: "sent_requests (transportLog demo_stale) =
     [changePublicKeys_request demo_env demo_protocol [0, 1], demo_payload ''get-logins'',
      changePublicKeys_request demo_env demo_protocol [0, 1], demo_payload ''get-any-field'',
      demo_payload ''get-databasehash'']"
    "map_of (settled demo_stale) 4 = None"
    "map_of (settled demo_stale) 5 = None"
    "currentRequest demo_stale =
       Some \<lparr>request = demo_payload ''get-databasehash'', timeout = 5\<rparr>"
    by (simp_all add: demo_stale_eq demo_reconnected_eq demo_connected_eq
        changePublicKeys_request_def demo_env_def demo_protocol_def demo_payload_def)
  have c: "map_of (settled (step demo_env (Ev_message demo_response) demo_stale)) 5 =
      Some (Resolved demo_response)"
    "map_of (settled (step demo_env (Ev_message demo_response) demo_stale)) 4 = None"
    by (simp_all add: demo_stale_eq demo_reconnected_eq demo_connected_eq transportMessage_def
        settle_def clearTimeout_def processRequestQueue_def demo_response_def)
  from r a b c show ?thesis
    by (simp add: demo_stale_def)
qed

section \<open>Timeouts and late messages\<close>

text \<open>
  Against C5 as it is stated: a run in which a late message is not ignored. After
  the handshake a request \<open>get-logins\<close> is dispatched and times out; a request \<open>get-totp\<close>
  is submitted and dispatched. The transport has so far answered the handshake only, so
  its next message is the late answer to \<open>get-logins\<close>. \<open>transportMessage\<close> resolves the
  request in flight, \<open>get-totp\<close>, with it.
\<close>

theorem C5_late_message_counterexample:
  "sent_requests (transportLog demo_late) =
     [changePublicKeys_request demo_env demo_protocol [0, 1],
      demo_payload ''get-logins'', demo_payload ''get-totp''] \<and>
   map_of (settled demo_late) 0 = Some (Resolved demo_handshake_response) \<and>
   map_of (settled demo_late) 1 = Some (Rejected (Error ''errorRequestTimeout'')) \<and>
   map_of (settled demo_late) 2 = None \<and>
   currentRequest demo_late = Some \<lparr>request = demo_payload ''get-totp'', timeout = 2\<rparr> \<and>
   map_of (settled (step demo_env (Ev_message demo_response) demo_late)) 2 =
     Some (Resolved demo_response)"
  by (simp add: demo_late_eq demo_connected_eq transportMessage_def settle_def clearTimeout_def
      processRequestQueue_def demo_response_def changePublicKeys_request_def demo_env_def
      demo_protocol_def demo_payload_def)

lemma timeoutFired_release:
  assumes "currentRequest b = Some cur" and "timeout cur = t" and "map_of (settled b) t = None"
  shows "currentRequest (timeoutFired e t b) = None"
    and "requestQueue (timeoutFired e t b) = requestQueue b"
    and "settled (timeoutFired e t b) =
      settled b @ [(t, Rejected (Error (getMessage e ''errorRequestTimeout'')))]"
  using assms by (simp_all add: timeoutFired_def settle_def)

lemma transportMessage_empty_slot:
  assumes "currentRequest b = None"
  shows "settled (transportMessage msg b) = settled b"
  using assms
  by (simp add: transportMessage_def focusKeeWebTab_def processRequestQueue_def
      sendTransportRequest_def split: option.splits list.splits)

text \<open>
  C5, as the code has it. When the timer of the request in flight fires and its promise
  is still pending, exactly that promise is rejected with the timeout error, the slot of
  the request in flight is emptied, and the queue is as before. A message of the transport
  that arrives next settles no promise, and so does any message that arrives while the
  slot is empty.
\<close>

theorem C5_timeout_release:
  "(currentRequest b = Some cur \<and> timeout cur = t \<and> map_of (settled b) t = None \<longrightarrow>
      currentRequest (timeoutFired e t b) = None \<and>
      requestQueue (timeoutFired e t b) = requestQueue b \<and>
      settled (timeoutFired e t b) =
        settled b @ [(t, Rejected (Error (getMessage e ''errorRequestTimeout'')))] \<and>
      settled (transportMessage msg (timeoutFired e t b)) = settled (timeoutFired e t b)) \<and>
   (currentRequest b = None \<longrightarrow> settled (transportMessage msg b) = settled b)"
  using timeoutFired_release [of b cur t e]
    transportMessage_empty_slot [of "timeoutFired e t b" msg]
    transportMessage_empty_slot [of b msg]
  by simp

theorem C5_timeout_release_witness:
  "currentRequest demo_in_flight = Some \<lparr>request = demo_payload ''get-logins'', timeout = 1\<rparr> \<and>
   map_of (settled demo_in_flight) 1 = None \<and>
   currentRequest (timeoutFired demo_env 1 demo_in_flight) = None \<and>
   requestQueue (timeoutFired demo_env 1 demo_in_flight) =
     [\<lparr>request = demo_payload ''get-totp'', timeout = 2\<rparr>] \<and>
   settled (timeoutFired demo_env 1 demo_in_flight) =
     [(0, Resolved demo_handshake_response), (1, Rejected (Error ''errorRequestTimeout''))] \<and>
   settled (transportMessage demo_response (timeoutFired demo_env 1 demo_in_flight)) =
     [(0, Resolved demo_handshake_response), (1, Rejected (Error ''errorRequestTimeout''))]"
proof -
  have c: "currentRequest demo_in_flight =
      Some \<lparr>request = demo_payload ''get-logins'', timeout = 1\<rparr>"
    by (simp add: demo_in_flight_eq)
  have s: "map_of (settled demo_in_flight) 1 = None"
    "settled demo_in_flight = [(0, Resolved demo_handshake_response)]"
    "requestQueue demo_in_flight = [\<lparr>request = demo_payload ''get-totp'', timeout = 2\<rparr>]"
    by (simp_all add: demo_in_flight_eq demo_connected_eq)
  have g: "getMessage demo_env ''errorRequestTimeout'' = ''errorRequestTimeout''"
    by (simp add: demo_env_def)
  show ?thesis
    using C5_timeout_release
      [of demo_in_flight "\<lparr>request = demo_payload ''get-logins'', timeout = 1\<rparr>" 1 demo_env
        demo_response]
      c s g
    by simp
qed

section \<open>Connecting\<close>

lemma settleConnect_map_of:
  "map_of (connectSettled (settleConnect k v b)) j =
     (case map_of (connectSettled b) j of
        Some w \<Rightarrow> Some w
      | None \<Rightarrow> if j = k then Some v else None)"
  by (simp add: settleConnect_def map_add_def split: option.splits)

lemma fold_settleConnect_keeps:
  "map_of (connectSettled b) j = Some w \<Longrightarrow>
   map_of (connectSettled (fold (\<lambda>k. settleConnect k v) ks b)) j = Some w"
  by (induction ks arbitrary: b) (simp_all add: settleConnect_map_of)

lemma fold_settleConnect_settles:
  "j \<in> set ks \<Longrightarrow> map_of (connectSettled b) j = None \<Longrightarrow>
   map_of (connectSettled (fold (\<lambda>k. settleConnect k v) ks b)) j = Some v"
proof (induction ks arbitrary: b)
  case Nil
  then show ?case by simp
next
  case (Cons k ks)
  show ?case
  proof (cases "j = k")
    case True
    with Cons.prems have "map_of (connectSettled (settleConnect k v b)) j = Some v"
      by (simp add: settleConnect_map_of)
    then show ?thesis
      by (simp add: fold_settleConnect_keeps)
  next
    case False
    with Cons.prems have "j \<in> set ks" and "map_of (connectSettled (settleConnect k v b)) j = None"
      by (simp_all add: settleConnect_map_of)
    then show ?thesis
      using Cons.IH by simp
  qed
qed

lemma emit_ConnectFinished_settles:
  assumes "j \<in> set (connectWaiters b)" and "map_of (connectSettled b) j = None"
  shows "map_of (connectSettled (emit (ConnectFinished err) b)) j =
    Some (case err of None \<Rightarrow> ConnectResolved | Some x \<Rightarrow> ConnectRejected x)"
  using assms by (simp add: emit_def fold_settleConnect_settles)

lemma setState_connect_fields:
  "connectWaiters (setState st b) = connectWaiters b"
  "connectSettled (setState st b) = connectSettled b"
  by (simp_all add: setState_def emit_def)

lemma connect_failed_waiter:
  assumes "j \<in> set (connectWaiters b)" and "map_of (connectSettled b) j = None"
  shows "map_of (connectSettled (connect_failed k err b)) j = Some (ConnectRejected err)"
proof -
  let ?b1 = "setState StateError (b\<lparr>connectionError := Some (error_message err)\<rparr>)"
  have "map_of (connectSettled (emit (ConnectFinished (Some err)) ?b1)) j =
      Some (ConnectRejected err)"
    using assms emit_ConnectFinished_settles [of j ?b1 "Some err"]
    by (simp add: setState_connect_fields)
  then show ?thesis
    by (simp add: connect_failed_def settleConnect_map_of)
qed

lemma connect_handshakeResolved_waiter:
  assumes "j \<in> set (connectWaiters b)" and "map_of (connectSettled b) j = None"
    and "protocol b = Some p" and "changePublicKeys_response e p response = Inr p1"
  shows "map_of (connectSettled (connect_handshakeResolved e k response b)) j =
    Some ConnectResolved"
proof -
  let ?b1 = "setState Connected (b\<lparr>protocol := Some p1\<rparr>)"
  have "map_of (connectSettled (emit (ConnectFinished None) ?b1)) j = Some ConnectResolved"
    using assms(1,2) emit_ConnectFinished_settles [of j ?b1 None]
    by (simp add: setState_connect_fields)
  then show ?thesis
    using assms(3,4) by (simp add: connect_handshakeResolved_def settleConnect_map_of)
qed

lemma connect_calls_Connecting:
  "state b = Connecting \<Longrightarrow>
   connect_calls calls b = b\<lparr>connectWaiters := connectWaiters b @ map fst calls\<rparr>"
proof (induction calls arbitrary: b)
  case Nil
  then show ?case by (simp add: connect_calls_def)
next
  case (Cons c calls)
  obtain k fresh where c: "c = (k, fresh)" by (cases c)
  let ?b1 = "b\<lparr>connectWaiters := connectWaiters b @ [k]\<rparr>"
  have s: "connect k fresh b = ?b1"
    using Cons.prems by (simp add: connect_def)
  have "connect_calls (c # calls) b = connect_calls calls ?b1"
    by (simp add: connect_calls_def c s)
  also have "\<dots> = ?b1\<lparr>connectWaiters := connectWaiters ?b1 @ map fst calls\<rparr>"
    using Cons.prems by (intro Cons.IH) simp
  finally show ?case by (simp add: c)
qed

lemma processRequestQueue_other_fields:
  "state (processRequestQueue b) = state b"
  "protocol (processRequestQueue b) = protocol b"
  "connectWaiters (processRequestQueue b) = connectWaiters b"
  "connectSettled (processRequestQueue b) = connectSettled b"
  "count_list (transportLog (processRequestQueue b)) T_connect =
     count_list (transportLog b) T_connect"
  by (simp_all add: processRequestQueue_def sendTransportRequest_def
      split: list.splits option.splits)

lemma Backend_request_other_fields:
  "state (Backend_request r b) = state b"
  "protocol (Backend_request r b) = protocol b"
  "connectWaiters (Backend_request r b) = connectWaiters b"
  "connectSettled (Backend_request r b) = connectSettled b"
  "count_list (transportLog (Backend_request r b)) T_connect =
     count_list (transportLog b) T_connect"
  by (simp_all add: Backend_request_def Let_def processRequestQueue_other_fields)

lemma connect_starts:
  assumes "state b \<noteq> Connected" and "state b \<noteq> Connecting"
  shows "state (connect k fresh b) = Connecting"
    and "protocol (connect k fresh b) = Some (fresh\<lparr>keewebPublicKey := None\<rparr>)"
    and "connectWaiters (connect k fresh b) = connectWaiters b"
    and "connectSettled (connect k fresh b) = connectSettled b"
    and "transportLog (connect k fresh b) = transportLog b @ [T_connect]"
  using assms
  by (simp_all add: connect_def Let_def initTransport_def setState_fields
      setState_connect_fields rejectPendingRequests_fields)

lemma connect_attempt_fields:
  assumes "state b \<noteq> Connected" and "state b \<noteq> Connecting"
  shows "state (connect_attempt e k fresh nonce calls1 calls2 b) = Connecting"
    and "protocol (connect_attempt e k fresh nonce calls1 calls2 b) =
      Some (fresh\<lparr>keewebPublicKey := None\<rparr>)"
    and "connectWaiters (connect_attempt e k fresh nonce calls1 calls2 b) =
      connectWaiters b @ map fst calls1 @ map fst calls2"
    and "connectSettled (connect_attempt e k fresh nonce calls1 calls2 b) = connectSettled b"
    and "count_list (transportLog (connect_attempt e k fresh nonce calls1 calls2 b)) T_connect =
      count_list (transportLog b) T_connect + 1"
proof -
  let ?b1 = "connect k fresh b"
  let ?b2 = "connect_calls calls1 ?b1"
  let ?b3 = "connect_transportConnected e k nonce ?b2"
  note s1 = connect_starts [OF assms, of k fresh]
  have b2: "?b2 = ?b1\<lparr>connectWaiters := connectWaiters ?b1 @ map fst calls1\<rparr>"
    using s1(1) by (rule connect_calls_Connecting)
  have p2: "protocol ?b2 = Some (fresh\<lparr>keewebPublicKey := None\<rparr>)"
    by (simp add: b2 s1)
  have b3: "?b3 = Backend_request
      (changePublicKeys_request e (fresh\<lparr>keewebPublicKey := None\<rparr>) nonce) ?b2"
    by (simp add: connect_transportConnected_def p2)
  have s3: "state ?b3 = Connecting"
    "protocol ?b3 = Some (fresh\<lparr>keewebPublicKey := None\<rparr>)"
    "connectWaiters ?b3 = connectWaiters b @ map fst calls1"
    "connectSettled ?b3 = connectSettled b"
    "count_list (transportLog ?b3) T_connect = count_list (transportLog b) T_connect + 1"
    unfolding b3 Backend_request_other_fields
    by (simp_all add: b2 s1)
  have b4: "connect_attempt e k fresh nonce calls1 calls2 b =
      ?b3\<lparr>connectWaiters := connectWaiters ?b3 @ map fst calls2\<rparr>"
    unfolding connect_attempt_def using s3(1) by (rule connect_calls_Connecting)
  show "state (connect_attempt e k fresh nonce calls1 calls2 b) = Connecting"
    and "protocol (connect_attempt e k fresh nonce calls1 calls2 b) =
      Some (fresh\<lparr>keewebPublicKey := None\<rparr>)"
    and "connectWaiters (connect_attempt e k fresh nonce calls1 calls2 b) =
      connectWaiters b @ map fst calls1 @ map fst calls2"
    and "connectSettled (connect_attempt e k fresh nonce calls1 calls2 b) = connectSettled b"
    and "count_list (transportLog (connect_attempt e k fresh nonce calls1 calls2 b)) T_connect =
      count_list (transportLog b) T_connect + 1"
    unfolding b4 using s3 by simp_all
qed

lemma finish_log:
  "transportLog (connect_failed k err b) = transportLog b"
  "transportLog (connect_handshakeResolved e k response b) = transportLog b"
  by (simp_all add: connect_failed_def connect_handshakeResolved_def settleConnect_def
      emit_fields setState_fields split: option.splits sum.splits)

text \<open>
  C4. Called in state \<open>Connected\<close>, \<open>connect\<close> resolves the promise of the call and changes
  nothing else. Called in state \<open>Connecting\<close>, by any number of callers, it only registers
  each caller as waiting: no transport is created or connected and no handshake is sent.
  Each such caller whose promise is pending is rejected with the error of the attempt when
  the attempt fails, and resolved when the handshake succeeds. Over a whole attempt, with
  any callers joining before and after the transport has connected, and on either
  outcome, \<^verbatim>\<open>connect\<close> of the transport is called exactly once.
\<close>

theorem C4_connect:
  "(state b = Connected \<longrightarrow> connect k fresh b = settleConnect k ConnectResolved b) \<and>
   (state b = Connecting \<longrightarrow>
      connect_calls calls b = b\<lparr>connectWaiters := connectWaiters b @ map fst calls\<rparr>) \<and>
   (state b = Connecting \<and> j \<in> fst ` set calls \<and> map_of (connectSettled b) j = None \<longrightarrow>
      map_of (connectSettled (connect_failed k err (connect_calls calls b))) j =
        Some (ConnectRejected err) \<and>
      (protocol b = Some p \<and> changePublicKeys_response e p response = Inr p1 \<longrightarrow>
         map_of (connectSettled (connect_handshakeResolved e k response (connect_calls calls b))) j =
           Some ConnectResolved)) \<and>
   (state b \<noteq> Connected \<and> state b \<noteq> Connecting \<longrightarrow>
      count_list (transportLog (connect_failed k err
          (connect_attempt e k fresh nonce calls calls2 b))) T_connect =
        count_list (transportLog b) T_connect + 1 \<and>
      count_list (transportLog (connect_handshakeResolved e k response
          (connect_attempt e k fresh nonce calls calls2 b))) T_connect =
        count_list (transportLog b) T_connect + 1)"
proof (intro conjI impI)
  assume "state b = Connected"
  then show "connect k fresh b = settleConnect k ConnectResolved b"
    by (simp add: connect_def)
next
  assume "state b = Connecting"
  then show "connect_calls calls b = b\<lparr>connectWaiters := connectWaiters b @ map fst calls\<rparr>"
    by (rule connect_calls_Connecting)
next
  assume a: "state b = Connecting \<and> j \<in> fst ` set calls \<and> map_of (connectSettled b) j = None"
  then have c: "connect_calls calls b = b\<lparr>connectWaiters := connectWaiters b @ map fst calls\<rparr>"
    by (simp add: connect_calls_Connecting)
  have w: "j \<in> set (connectWaiters (connect_calls calls b))"
    "map_of (connectSettled (connect_calls calls b)) j = None"
    using a by (simp_all add: c)
  then show "map_of (connectSettled (connect_failed k err (connect_calls calls b))) j =
      Some (ConnectRejected err)"
    by (rule connect_failed_waiter)
  assume "protocol b = Some p \<and> changePublicKeys_response e p response = Inr p1"
  then have "protocol (connect_calls calls b) = Some p"
    and "changePublicKeys_response e p response = Inr p1"
    by (simp_all add: c)
  with w show "map_of (connectSettled
      (connect_handshakeResolved e k response (connect_calls calls b))) j = Some ConnectResolved"
    by (rule connect_handshakeResolved_waiter)
next
  assume a: "state b \<noteq> Connected \<and> state b \<noteq> Connecting"
  then show "count_list (transportLog (connect_failed k err
          (connect_attempt e k fresh nonce calls calls2 b))) T_connect =
        count_list (transportLog b) T_connect + 1"
    and "count_list (transportLog (connect_handshakeResolved e k response
          (connect_attempt e k fresh nonce calls calls2 b))) T_connect =
        count_list (transportLog b) T_connect + 1"
    by (simp_all add: finish_log connect_attempt_fields)
qed

lemma demo_ready_eq:
  "demo_ready =
     new_Backend\<lparr>keeWebUrl := None, state := ReadyToConnect, emitted := [StateChanged]\<rparr>"
  unfolding demo_ready_def
  by (simp add: run_def new_Backend_def init_def resetStateByConfig_def
      setState_def emit_def connect_def rejectPendingRequests_def initTransport_def is_falsy_def
      connect_transportConnected_def changePublicKeys_request_def Backend_request_def
      processRequestQueue_def sendTransportRequest_def transportMessage_def settle_def
      clearTimeout_def connect_handshakeResolved_def changePublicKeys_response_def
      checkResponseError_def settleConnect_def timeoutFired_def defaultKeeWebUrl_def
      connect_failed_def)

lemma demo_connecting_eq:
  "demo_connecting =
     demo_ready
       \<lparr>state := Connecting, transport := Some TransportNativeMessaging,
        currentRequest :=
          Some \<lparr>request = changePublicKeys_request demo_env demo_protocol [0, 1], timeout = 0\<rparr>,
        protocol := Some (demo_protocol\<lparr>keewebPublicKey := None\<rparr>),
        timers := [0], nextTimer := 1, emitted := [StateChanged, StateChanged],
        transportLog :=
          [T_connect, T_request (changePublicKeys_request demo_env demo_protocol [0, 1])],
        submitted := [changePublicKeys_request demo_env demo_protocol [0, 1]]\<rparr>"
  unfolding demo_connecting_def demo_ready_eq
  by (simp add: run_def new_Backend_def init_def resetStateByConfig_def
      setState_def emit_def connect_def rejectPendingRequests_def initTransport_def is_falsy_def
      connect_transportConnected_def changePublicKeys_request_def Backend_request_def
      processRequestQueue_def sendTransportRequest_def transportMessage_def settle_def
      clearTimeout_def connect_handshakeResolved_def changePublicKeys_response_def
      checkResponseError_def settleConnect_def timeoutFired_def defaultKeeWebUrl_def
      connect_failed_def demo_env_def demo_protocol_def demo_handshake_response_def
      demo_payload_def Let_def)

theorem C4_connect_witness:
  "connect 7 demo_protocol demo_connected = settleConnect 7 ConnectResolved demo_connected \<and>
   connect_calls [(1, demo_protocol), (2, demo_protocol)] demo_connecting =
     demo_connecting\<lparr>connectWaiters := [1, 2]\<rparr> \<and>
   map_of (connectSettled (connect_failed 0 (Error ''refused'')
       (connect_calls [(1, demo_protocol), (2, demo_protocol)] demo_connecting))) 2 =
     Some (ConnectRejected (Error ''refused'')) \<and>
   map_of (connectSettled (connect_handshakeResolved demo_env 0 demo_handshake_response
       (connect_calls [(1, demo_protocol), (2, demo_protocol)] demo_connecting))) 2 =
     Some ConnectResolved \<and>
   count_list (transportLog (connect_failed 0 (Error ''refused'')
       (connect_attempt demo_env 0 demo_protocol [0, 1]
          [(1, demo_protocol), (2, demo_protocol)] [(3, demo_protocol)] demo_ready))) T_connect = 1 \<and>
   count_list (transportLog (connect_handshakeResolved demo_env 0 demo_handshake_response
       (connect_attempt demo_env 0 demo_protocol [0, 1]
          [(1, demo_protocol), (2, demo_protocol)] [(3, demo_protocol)] demo_ready))) T_connect = 1"
proof -
  have s: "state demo_connected = Connected" "state demo_connecting = Connecting"
    "state demo_ready = ReadyToConnect"
    by (simp_all add: demo_connected_eq demo_connecting_eq demo_ready_eq new_Backend_def)
  have w: "connectWaiters demo_connecting = []" "map_of (connectSettled demo_connecting) 2 = None"
    "transportLog demo_ready = []"
    "protocol demo_connecting = Some (demo_protocol\<lparr>keewebPublicKey := None\<rparr>)"
    by (simp_all add: demo_connecting_eq demo_ready_eq new_Backend_def)
  have h: "changePublicKeys_response demo_env (demo_protocol\<lparr>keewebPublicKey := None\<rparr>)
      demo_handshake_response = Inr (demo_protocol\<lparr>keewebPublicKey := Some [1, 1]\<rparr>)"
    by (simp add: changePublicKeys_response_def checkResponseError_def demo_env_def demo_protocol_def demo_handshake_response_def
      demo_payload_def)
  show ?thesis
    using
      C4_connect [of demo_connected 7 demo_protocol]
      C4_connect [of demo_connecting 0 demo_protocol "[(1, demo_protocol), (2, demo_protocol)]" 2
        "Error ''refused''" "demo_protocol\<lparr>keewebPublicKey := None\<rparr>" demo_env
        demo_handshake_response "demo_protocol\<lparr>keewebPublicKey := Some [1, 1]\<rparr>"]
      C4_connect [of demo_ready 0 demo_protocol "[(1, demo_protocol), (2, demo_protocol)]" _
        "Error ''refused''" _ demo_env demo_handshake_response _ "[0, 1]" "[(3, demo_protocol)]"]
      s w h
    by auto
qed

end
